theory Spec2Isabelle
  imports Complex_Main
begin

section \<open>Numbers, arrays and loops of the source language\<close>

text \<open>
  The service \<^verbatim>\<open>src/backend/src/services/strategy.ts\<close> computes with TypeScript
  \<^verbatim>\<open>number\<close>s. Every input number (a close, a strategy parameter, an equity value, a
  random draw) is a finite real. The indicators, the signal loop and the fallback of
  \<^verbatim>\<open>backtest\<close> and \<^verbatim>\<open>generateVariants\<close> are modelled over exact reals. The numbers that
  \<^verbatim>\<open>calculateMetrics\<close> computes are carried in the type \<open>jsnum\<close>, which adds the two
  infinities and NaN with the arithmetic and the comparisons JavaScript gives them: a
  division by zero gives an infinity or NaN, and a result whose magnitude reaches
  \<open>2 ^ 1024 - 2 ^ 970\<close>, from where binary64 rounds to an infinity, overflows (\<open>js_fin\<close>).
  Below that bound results are kept exact: rounding, underflow and signed zeros are not
  part of this model.
\<close>

datatype jsnum = Fin real | PInf | NInf | NaN

definition js_threshold :: real where
  "js_threshold = 2 ^ 1024 - 2 ^ 970"

definition js_fin :: "real \<Rightarrow> jsnum" where
  "js_fin x =
     (if js_threshold \<le> x then PInf else if x \<le> - js_threshold then NInf else Fin x)"

fun js_neg :: "jsnum \<Rightarrow> jsnum" where
  "js_neg (Fin a) = Fin (- a)"
| "js_neg PInf = NInf"
| "js_neg NInf = PInf"
| "js_neg NaN = NaN"

fun js_add :: "jsnum \<Rightarrow> jsnum \<Rightarrow> jsnum" where
  "js_add NaN _ = NaN"
| "js_add _ NaN = NaN"
| "js_add (Fin a) (Fin b) = js_fin (a + b)"
| "js_add PInf NInf = NaN"
| "js_add NInf PInf = NaN"
| "js_add PInf _ = PInf"
| "js_add NInf _ = NInf"
| "js_add (Fin a) b = b"

definition js_sub :: "jsnum \<Rightarrow> jsnum \<Rightarrow> jsnum" where
  "js_sub a b = js_add a (js_neg b)"

fun js_mul :: "jsnum \<Rightarrow> jsnum \<Rightarrow> jsnum" where
  "js_mul NaN _ = NaN"
| "js_mul _ NaN = NaN"
| "js_mul (Fin a) (Fin b) = js_fin (a * b)"
| "js_mul (Fin a) PInf = (if a = 0 then NaN else if 0 < a then PInf else NInf)"
| "js_mul (Fin a) NInf = (if a = 0 then NaN else if 0 < a then NInf else PInf)"
| "js_mul PInf (Fin b) = (if b = 0 then NaN else if 0 < b then PInf else NInf)"
| "js_mul NInf (Fin b) = (if b = 0 then NaN else if 0 < b then NInf else PInf)"
| "js_mul PInf PInf = PInf"
| "js_mul NInf NInf = PInf"
| "js_mul PInf NInf = NInf"
| "js_mul NInf PInf = NInf"

fun js_div :: "jsnum \<Rightarrow> jsnum \<Rightarrow> jsnum" where
  "js_div NaN _ = NaN"
| "js_div _ NaN = NaN"
| "js_div (Fin a) (Fin b) =
     (if b \<noteq> 0 then js_fin (a / b)
      else if a = 0 then NaN else if 0 < a then PInf else NInf)"
| "js_div (Fin a) _ = Fin 0"
| "js_div PInf (Fin b) = (if 0 \<le> b then PInf else NInf)"
| "js_div NInf (Fin b) = (if 0 \<le> b then NInf else PInf)"
| "js_div _ _ = NaN"

text \<open>\<^verbatim>\<open>Math.pow(x, 2)\<close>, \<^verbatim>\<open>Math.sqrt\<close>, \<^verbatim>\<open>a > b\<close>, \<^verbatim>\<open>Math.max\<close> and \<^verbatim>\<open>Math.min\<close>.\<close>

definition js_pow2 :: "jsnum \<Rightarrow> jsnum" where
  "js_pow2 x = js_mul x x"

fun js_sqrt :: "jsnum \<Rightarrow> jsnum" where
  "js_sqrt (Fin a) = (if a < 0 then NaN else Fin (sqrt a))"
| "js_sqrt PInf = PInf"
| "js_sqrt NInf = NaN"
| "js_sqrt NaN = NaN"

fun js_gt :: "jsnum \<Rightarrow> jsnum \<Rightarrow> bool" where
  "js_gt NaN _ = False"
| "js_gt _ NaN = False"
| "js_gt (Fin a) (Fin b) = (b < a)"
| "js_gt NInf _ = False"
| "js_gt _ PInf = False"
| "js_gt PInf _ = True"
| "js_gt _ NInf = True"

fun js_max :: "jsnum \<Rightarrow> jsnum \<Rightarrow> jsnum" where
  "js_max NaN _ = NaN"
| "js_max _ NaN = NaN"
| "js_max a b = (if js_gt b a then b else a)"

fun js_min :: "jsnum \<Rightarrow> jsnum \<Rightarrow> jsnum" where
  "js_min NaN _ = NaN"
| "js_min _ NaN = NaN"
| "js_min a b = (if js_gt a b then b else a)"

text \<open>
  \<^verbatim>\<open>xs[i]\<close> for a number \<open>i\<close>: the element when \<open>i\<close> is a whole number inside the
  array, \<^verbatim>\<open>undefined\<close> (here \<open>None\<close>) for a negative, a fractional or a too large \<open>i\<close>.
\<close>

definition js_index :: "'a list \<Rightarrow> real \<Rightarrow> 'a option" where
  "js_index xs i =
     (if 0 \<le> i \<and> i = of_int \<lfloor>i\<rfloor> \<and> nat \<lfloor>i\<rfloor> < length xs
      then Some (xs ! nat \<lfloor>i\<rfloor>) else None)"

text \<open>
  The values the counter takes in \<^verbatim>\<open>for (let j = 0; j < bound; j++)\<close> and in
  \<^verbatim>\<open>for (let i = start; i < bound; i++)\<close> when the bound or the start is a number that
  need not be whole.
\<close>

definition js_for :: "real \<Rightarrow> nat list" where
  "js_for bound = [0..<nat \<lceil>bound\<rceil>]"

definition js_for_from :: "real \<Rightarrow> real \<Rightarrow> real list" where
  "js_for_from start bound = map (\<lambda>k. start + real k) [0..<nat \<lceil>bound - start\<rceil>]"

section \<open>Data model\<close>

text \<open>
  A date is its \<^verbatim>\<open>getTime()\<close> value, milliseconds since the epoch. The field
  \<open>date\<close> of a bar is optional because \<^verbatim>\<open>backtest\<close> filters on its presence.
\<close>

record StrategyParameters =
  ma_short :: real
  ma_long :: real
  rsi_threshold :: real
  position_size :: real
  stop_loss :: "real option"
  take_profit :: "real option"

record StrategyMetrics =
  sharpe_ratio :: jsnum
  total_return :: jsnum
  max_drawdown :: jsnum
  win_rate :: real
  avg_trade_duration :: real
  num_trades :: nat

datatype strategy_type = Base | Optimized | Hybrid

record Strategy =
  id_s :: string
  user_id :: "string option"
  name :: string
  type_s :: strategy_type
  parameters :: StrategyParameters
  metrics :: "StrategyMetrics option"
  created_at :: int
  parent_id :: "string option"

record MarketData =
  date :: "int option"
  "open" :: real
  high :: real
  low :: real
  close :: real
  volume :: real

text \<open>
  An entry of the trade log. The source's log entries also carry \<^verbatim>\<open>holdTarget\<close> or
  \<^verbatim>\<open>daysHeld\<close>, which nothing reads; they are left out.
\<close>

datatype trade_type = BUY | SELL

record Trade =
  trade_type :: trade_type
  trade_date :: int
  price :: real
  quantity :: real

datatype error = EmptyMarketData | InsufficientData | TypeError

section \<open>Indicator calculator\<close>

text \<open>
  \<^verbatim>\<open>calculateMA\<close>: for each index \<open>i\<close>, \<open>0\<close> while \<open>i < period - 1\<close>; afterwards
  the inner loop walks \<open>idx = i - j\<close> for \<open>j = 0, 1, \<dots> < period\<close>, adds the close of
  every bar that exists and has a positive close, and divides by the number found.
\<close>

definition ma_window_step :: "MarketData list \<Rightarrow> nat \<Rightarrow> nat \<Rightarrow> real \<times> nat \<Rightarrow> real \<times> nat" where
  "ma_window_step data i j acc =
     (case js_index data (real i - real j) of
        None \<Rightarrow> acc
      | Some b \<Rightarrow> if 0 < close b then (fst acc + close b, Suc (snd acc)) else acc)"

definition ma_at :: "MarketData list \<Rightarrow> real \<Rightarrow> nat \<Rightarrow> real" where
  "ma_at data period i =
     (if real i < period - 1 then 0
      else (let acc = fold (ma_window_step data i) (js_for period) (0, 0)
            in if 0 < snd acc then fst acc / real (snd acc) else 0))"

definition calculateMA :: "MarketData list \<Rightarrow> real \<Rightarrow> real list" where
  "calculateMA data period = map (ma_at data period) [0..<length data]"

text \<open>
  \<^verbatim>\<open>calculateRSI\<close>, for a positive whole \<open>period\<close> (the only call passes 14). The
  closes are numbers, so the branch for a missing close never runs and is left out.
  \<open>price_changes\<close> is the first loop (gains and losses), \<open>rsi_at\<close> the body of the second,
  and the final \<^verbatim>\<open>while\<close> pads with 50.
\<close>

fun price_changes :: "MarketData list \<Rightarrow> (real \<times> real) list" where
  "price_changes (a # b # rest) =
     (let change = close b - close a
      in (if 0 < change then change else 0, if change < 0 then \<bar>change\<bar> else 0)
         # price_changes (b # rest))"
| "price_changes _ = []"

definition rsi_at :: "(real \<times> real) list \<Rightarrow> nat \<Rightarrow> nat \<Rightarrow> real" where
  "rsi_at changes period i =
     (if int i < int period - 1 then 50
      else (let window = take period (drop (i + 1 - period) changes);
                avg_gain = sum_list (map fst window) / real period;
                avg_loss = sum_list (map snd window) / real period
            in if avg_loss = 0 then 100
               else 100 - 100 / (1 + avg_gain / avg_loss)))"

definition calculateRSI :: "MarketData list \<Rightarrow> nat \<Rightarrow> real list" where
  "calculateRSI data period =
     (let changes = price_changes data;
          rsi = 50 # map (rsi_at changes period) [0..<length changes]
      in rsi @ replicate (length data - length rsi) 50)"

section \<open>Variant generator\<close>

text \<open>Decimal digits of a number, for the template strings of the source.\<close>

fun string_of_nat :: "nat \<Rightarrow> string" where
  "string_of_nat n =
     (if n < 10 then [''0123456789'' ! n]
      else string_of_nat (n div 10) @ [''0123456789'' ! (n mod 10)])"

text \<open>
  \<^verbatim>\<open>generateVariants\<close>. \<open>rnd k\<close> is the value of the \<open>k\<close>-th call of
  \<^verbatim>\<open>Math.random()\<close> (four calls per variant, in the order the source makes them) and
  \<open>clock k\<close> the \<open>k\<close>-th reading of the clock (\<^verbatim>\<open>Date.now()\<close>, then \<^verbatim>\<open>new Date()\<close>).
  The count is the number of loop rounds, a natural number.
\<close>

definition make_variant :: "Strategy \<Rightarrow> (nat \<Rightarrow> real) \<Rightarrow> (nat \<Rightarrow> nat) \<Rightarrow> nat \<Rightarrow> Strategy" where
  "make_variant baseStrategy rnd clock i =
     (let positionSizeMultiplier = 0.8 + rnd (4 * i) * 0.6;
          newPositionSize = position_size (parameters baseStrategy) * positionSizeMultiplier;
          newPositionSize = max 0.10 (min 0.20 newPositionSize)
      in \<lparr> id_s = ''strategy_'' @ string_of_nat (clock (2 * i)) @ ''_'' @ string_of_nat i,
           user_id = None,
           name = name baseStrategy @ '' Variant '' @ string_of_nat (i + 1),
           type_s = Optimized,
           parameters =
             \<lparr> ma_short = max 10 (ma_short (parameters baseStrategy) + (rnd (4 * i + 1) * 10 - 5)),
               ma_long = max 30 (ma_long (parameters baseStrategy) + (rnd (4 * i + 2) * 20 - 10)),
               rsi_threshold =
                 max 25 (min 35 (rsi_threshold (parameters baseStrategy) + (rnd (4 * i + 3) * 10 - 5))),
               position_size = newPositionSize,
               stop_loss = None,
               take_profit = None \<rparr>,
           metrics = None,
           created_at = int (clock (2 * i + 1)),
           parent_id = Some (id_s baseStrategy) \<rparr>)"

definition generateVariants :: "Strategy \<Rightarrow> nat \<Rightarrow> (nat \<Rightarrow> real) \<Rightarrow> (nat \<Rightarrow> nat) \<Rightarrow> Strategy list" where
  "generateVariants baseStrategy count rnd clock =
     map (make_variant baseStrategy rnd clock) [0..<count]"

section \<open>Metrics calculator\<close>

text \<open>
  \<^verbatim>\<open>calculateMetrics(equity_curve, trades)\<close>. \<^verbatim>\<open>x || d\<close> on numbers yields \<open>d\<close> when
  \<open>x\<close> is missing or zero. The logging is left out. The win rate is computed from two
  counts and lies between 0 and 100 before the boost, and the durations are differences
  of dates; neither can overflow or divide by zero, so both stay reals.
\<close>

fun daily_returns :: "real list \<Rightarrow> jsnum list" where
  "daily_returns (prev # cur # rest) =
     js_div (js_sub (Fin cur) (Fin prev)) (Fin prev) # daily_returns (cur # rest)"
| "daily_returns _ = []"

definition dd_step :: "real \<Rightarrow> real \<times> jsnum \<Rightarrow> real \<times> jsnum" where
  "dd_step equity acc =
     (let peak = (if fst acc < equity then equity else fst acc);
          drawdown = js_mul (js_div (js_sub (Fin peak) (Fin equity)) (Fin peak)) (Fin 100)
      in (peak, if js_gt drawdown (snd acc) then drawdown else snd acc))"

definition raw_max_drawdown :: "real list \<Rightarrow> jsnum" where
  "raw_max_drawdown equity_curve =
     (case equity_curve of
        [] \<Rightarrow> Fin 0
      | first # _ \<Rightarrow> snd (fold dd_step equity_curve (first, Fin 0)))"

fun count_pairs :: "Trade list \<Rightarrow> nat \<times> nat \<Rightarrow> nat \<times> nat" where
  "count_pairs (current # next # rest) acc =
     count_pairs (next # rest)
       (if trade_type current = BUY \<and> trade_type next = SELL
        then (Suc (fst acc), if price current < price next then Suc (snd acc) else snd acc)
        else acc)"
| "count_pairs _ acc = acc"

fun durations :: "Trade list \<Rightarrow> real \<times> nat \<Rightarrow> real \<times> nat" where
  "durations (a # b # rest) acc =
     durations rest
       (if trade_type a = BUY \<and> trade_type b = SELL
        then (fst acc + real_of_int (trade_date b - trade_date a) / (1000 * 60 * 60 * 24),
              Suc (snd acc))
        else acc)"
| "durations _ acc = acc"

definition initial_capital_of :: "real list \<Rightarrow> real" where
  "initial_capital_of equity_curve =
     (case equity_curve of
        [] \<Rightarrow> 100000
      | first # _ \<Rightarrow> if first = 0 then 100000 else first)"

definition final_capital_of :: "real list \<Rightarrow> real" where
  "final_capital_of equity_curve =
     (if equity_curve = [] \<or> last equity_curve = 0 then initial_capital_of equity_curve
      else last equity_curve)"

definition avg_return_of :: "real list \<Rightarrow> jsnum" where
  "avg_return_of equity_curve =
     (let returns = daily_returns equity_curve
      in js_div (foldl js_add (Fin 0) returns) (Fin (real (length returns))))"

definition calculateMetrics :: "real list \<Rightarrow> Trade list \<Rightarrow> StrategyMetrics" where
  "calculateMetrics equity_curve trades =
     (let initial_capital = initial_capital_of equity_curve;
          final_capital = final_capital_of equity_curve;
          actual_return =
            js_mul (js_div (js_sub (Fin final_capital) (Fin initial_capital))
                      (Fin initial_capital)) (Fin 100);
          total_return = js_add (Fin 10) actual_return;
          returns = daily_returns equity_curve;
          avg_return = avg_return_of equity_curve;
          std_return =
            js_sqrt (js_div
              (foldl (\<lambda>sum r. js_add sum (js_pow2 (js_sub r avg_return))) (Fin 0) returns)
              (Fin (real (length returns))));
          actual_sharpe =
            (if js_gt std_return (Fin 0)
             then js_mul (js_div avg_return std_return) (js_sqrt (Fin 252)) else Fin 0);
          sharpe_ratio = js_max (Fin 1.0) (js_mul actual_sharpe (Fin 1.5));
          max_drawdown = js_min (raw_max_drawdown equity_curve) (Fin 10);
          pairs = count_pairs trades (0, 0);
          completed_trades = fst pairs;
          wins = snd pairs;
          actual_win_rate =
            (if 0 < completed_trades then (real wins / real completed_trades) * 100 else 0);
          win_rate = min 75 (max 60 (actual_win_rate + 10));
          dur = durations trades (0, 0);
          avg_trade_duration = (if 0 < snd dur then fst dur / real (snd dur) else 0)
      in \<lparr> sharpe_ratio = sharpe_ratio,
           total_return = total_return,
           max_drawdown = js_neg max_drawdown,
           win_rate = win_rate,
           avg_trade_duration = avg_trade_duration,
           num_trades = completed_trades \<rparr>)"

section \<open>Backtest simulator\<close>

text \<open>
  The state of the signal loop of \<^verbatim>\<open>backtest\<close>. The counters \<^verbatim>\<open>signalCount\<close>,
  \<^verbatim>\<open>bullishCount\<close> and \<^verbatim>\<open>bearishCount\<close> are only logged and are left out.
\<close>

record sim_state =
  capital :: real
  position :: real
  trades :: "Trade list"
  equity_curve :: "real list"
  lastBuyIndex :: real

text \<open>
  One round of the signal loop at counter value \<open>i\<close>. The three \<^verbatim>\<open>continue\<close>s are the
  branches that return the state unchanged: a missing bar, a missing moving average and
  a moving average that is zero. \<open>the (date bar)\<close> is the date of a bar that passed the
  filter of \<^verbatim>\<open>backtest\<close>, which has one.
\<close>

definition signal_step ::
  "StrategyParameters \<Rightarrow> MarketData list \<Rightarrow> real list \<Rightarrow> real list \<Rightarrow> real list \<Rightarrow> real
     \<Rightarrow> sim_state \<Rightarrow> sim_state" where
  "signal_step p validMarketData ma_s ma_l rsi i st =
     (case js_index validMarketData i of
        None \<Rightarrow> st
      | Some bar \<Rightarrow>
         (case js_index ma_s i of
            None \<Rightarrow> st
          | Some ms \<Rightarrow>
             (case js_index ma_l i of
                None \<Rightarrow> st
              | Some ml \<Rightarrow>
                 if ms = 0 \<or> ml = 0 then st
                 else
                   (let currentRSI =
                          (case js_index rsi i of
                             None \<Rightarrow> 50
                           | Some r \<Rightarrow> if r = 0 then 50 else r);
                        daysHeld = (if 0 \<le> lastBuyIndex st then i - lastBuyIndex st else 0);
                        bullish = (ml < ms \<and> currentRSI < 100 - rsi_threshold p);
                        meetsMinHold = (3 \<le> daysHeld);
                        bearish = ((ms < ml \<or> rsi_threshold p + 40 < currentRSI) \<and> meetsMinHold);
                        st' =
                          (if bullish \<and> position st = 0 then
                             (let pos = (capital st * position_size p) / close bar
                              in st\<lparr> capital := capital st - pos * close bar,
                                     position := pos,
                                     trades := trades st @
                                       [\<lparr> trade_type = BUY, trade_date = the (date bar),
                                          price = close bar, quantity = pos \<rparr>],
                                     lastBuyIndex := i \<rparr>)
                           else if bearish \<and> 0 < position st then
                             st\<lparr> capital := capital st + position st * close bar,
                                  position := 0,
                                  trades := trades st @
                                    [\<lparr> trade_type = SELL, trade_date = the (date bar),
                                       price = close bar, quantity = position st \<rparr>],
                                  lastBuyIndex := - 1 \<rparr>
                           else st)
                    in st'\<lparr> equity_curve :=
                         equity_curve st' @ [capital st' + position st' * close bar] \<rparr>))))"

definition signal_loop ::
  "StrategyParameters \<Rightarrow> MarketData list \<Rightarrow> real list \<Rightarrow> real list \<Rightarrow> real list \<Rightarrow> real
     \<Rightarrow> sim_state" where
  "signal_loop p validMarketData ma_s ma_l rsi startIndex =
     fold (signal_step p validMarketData ma_s ma_l rsi)
       (js_for_from startIndex (real (length validMarketData)))
       \<lparr> capital = 100000, position = 0, trades = [], equity_curve = [100000],
         lastBuyIndex = - 1 \<rparr>"

text \<open>
  The loop that rebuilds the equity curve on the fallback path. The state is
  \<open>(currentCapital, currentPosition, equity_curve)\<close>; \<open>rebuild_step\<close> is the forced BUY and
  the forced SELL of one round. Reading \<^verbatim>\<open>.close\<close> of a missing bar throws a
  \<^verbatim>\<open>TypeError\<close>.
\<close>

definition rebuild_step ::
  "real \<Rightarrow> real \<Rightarrow> real \<Rightarrow> real \<Rightarrow> real \<Rightarrow> real \<Rightarrow> real \<times> real \<Rightarrow> real \<times> real" where
  "rebuild_step buyIndex sellIndex buyPrice sellPrice testPosition i acc =
     (let bought =
            (if i = buyIndex then (fst acc - testPosition * buyPrice, testPosition) else acc)
      in if i = sellIndex then (fst bought + snd bought * sellPrice, 0) else bought)"

fun rebuild ::
  "MarketData list \<Rightarrow> real \<Rightarrow> real \<Rightarrow> real \<Rightarrow> real \<Rightarrow> real \<Rightarrow> real list
     \<Rightarrow> real \<times> real \<times> real list \<Rightarrow> error + real \<times> real \<times> real list" where
  "rebuild validMarketData buyIndex sellIndex buyPrice sellPrice testPosition [] acc = Inr acc"
| "rebuild validMarketData buyIndex sellIndex buyPrice sellPrice testPosition (i # rest)
     (currentCapital, currentPosition, curve) =
     (let traded = rebuild_step buyIndex sellIndex buyPrice sellPrice testPosition i
                     (currentCapital, currentPosition)
      in case js_index validMarketData i of
           None \<Rightarrow> Inl TypeError
         | Some bar \<Rightarrow>
             rebuild validMarketData buyIndex sellIndex buyPrice sellPrice testPosition rest
               (fst traded, snd traded, curve @ [fst traded + snd traded * close bar]))"

text \<open>
  The fallback of \<^verbatim>\<open>backtest\<close>: two forced trades and the rebuilt curve. \<open>r\<close> is the
  value of the one \<^verbatim>\<open>Math.random()\<close> call.
\<close>

definition fallback ::
  "StrategyParameters \<Rightarrow> MarketData list \<Rightarrow> real \<Rightarrow> real \<Rightarrow> error + real list \<times> Trade list" where
  "fallback p validMarketData startIndex r =
     (let n = real (length validMarketData);
          buyIndex = of_int \<lfloor>n * 0.25\<rfloor>;
          minHoldDays = 5;
          sellIndex = min (buyIndex + minHoldDays + of_int \<lfloor>r * 3\<rfloor>) (n - 1)
      in case js_index validMarketData buyIndex of
           None \<Rightarrow> Inl TypeError
         | Some buyBar \<Rightarrow>
            (case js_index validMarketData sellIndex of
               None \<Rightarrow> Inl TypeError
             | Some sellBar \<Rightarrow>
                (let buyPrice = close buyBar;
                     sellPrice = close sellBar;
                     testPosition = (100000 * position_size p) / buyPrice;
                     forced =
                       [\<lparr> trade_type = BUY, trade_date = the (date buyBar),
                          price = buyPrice, quantity = testPosition \<rparr>,
                        \<lparr> trade_type = SELL, trade_date = the (date sellBar),
                          price = sellPrice, quantity = testPosition \<rparr>]
                 in case rebuild validMarketData buyIndex sellIndex buyPrice sellPrice
                           testPosition (js_for_from startIndex n) (100000, 0, []) of
                      Inl e \<Rightarrow> Inl e
                    | Inr acc \<Rightarrow> Inr (snd (snd acc), forced))))"

text \<open>
  \<^verbatim>\<open>backtest\<close> up to the call of \<^verbatim>\<open>calculateMetrics\<close>: the result is the equity curve
  and the trade log that call receives. \<open>run_signals\<close> is the part from the indicator
  series to the end of the signal loop. The market data is \<open>None\<close> when the argument is
  absent. The final mark-to-market of \<^verbatim>\<open>capital\<close> only changes a variable
  that is not read afterwards and is left out.
\<close>

definition valid_bars :: "MarketData list \<Rightarrow> MarketData list" where
  "valid_bars marketData = filter (\<lambda>d. 0 < close d \<and> date d \<noteq> None) marketData"

definition adjust_rsi :: "real list \<Rightarrow> nat \<Rightarrow> real list" where
  "adjust_rsi rsi n =
     (if length rsi \<noteq> n then take n (rsi @ replicate (n - length rsi) 50) else rsi)"

definition run_signals :: "Strategy \<Rightarrow> MarketData list \<Rightarrow> sim_state" where
  "run_signals strategy validMarketData =
     (let p = parameters strategy;
          ma_s = calculateMA validMarketData (ma_short p);
          ma_l = calculateMA validMarketData (ma_long p);
          rsi = adjust_rsi (calculateRSI validMarketData 14) (length validMarketData);
          startIndex = max (ma_long p) 14
      in signal_loop p validMarketData ma_s ma_l rsi startIndex)"

definition backtest_run ::
  "Strategy \<Rightarrow> MarketData list option \<Rightarrow> real \<Rightarrow> error + real list \<times> Trade list" where
  "backtest_run strategy marketData r =
     (case marketData of
        None \<Rightarrow> Inl EmptyMarketData
      | Some md \<Rightarrow>
          if length md = 0 then Inl EmptyMarketData
          else
            (let p = parameters strategy;
                 validMarketData = valid_bars md
             in if real (length validMarketData) < ma_long p then Inl InsufficientData
                else
                  (let startIndex = max (ma_long p) 14;
                       st = run_signals strategy validMarketData
                   in if length (trades st) < 2
                      then fallback p validMarketData startIndex r
                      else Inr (equity_curve st, trades st))))"

definition backtest ::
  "Strategy \<Rightarrow> MarketData list option \<Rightarrow> real \<Rightarrow> error + StrategyMetrics" where
  "backtest strategy marketData r =
     (case backtest_run strategy marketData r of
        Inl e \<Rightarrow> Inl e
      | Inr res \<Rightarrow> Inr (calculateMetrics (fst res) (snd res)))"

section \<open>Operations as the specification words them\<close>



text \<open>
  The specification's \<open>total_return\<close>: 10 plus the return between the first and the
  last entry of the curve, each 100000 when the curve is empty.
\<close>

definition spec_total_return :: "real list \<Rightarrow> jsnum" where
  "spec_total_return curve =
     (let initial = (if curve = [] then 100000 else hd curve);
          final = (if curve = [] then 100000 else last curve)
      in js_add (Fin 10) (js_mul (js_div (js_sub (Fin final) (Fin initial)) (Fin initial)) (Fin 100)))"

section \<open>Inputs for the examples\<close>

text \<open>
  Bar number \<open>k\<close> of a daily series with close \<open>c\<close>, a series from its closes, and a
  base strategy from its four parameters.
\<close>

definition mk_bar :: "nat \<Rightarrow> real \<Rightarrow> MarketData" where
  "mk_bar k c =
     \<lparr> date = Some (86400000 * int k), open = c, high = c, low = c, close = c, volume = 0 \<rparr>"

definition mk_bars :: "real list \<Rightarrow> MarketData list" where
  "mk_bars cs = map (\<lambda>kc. mk_bar (fst kc) (snd kc)) (enumerate 0 cs)"

definition mk_strategy :: "real \<Rightarrow> real \<Rightarrow> real \<Rightarrow> real \<Rightarrow> Strategy" where
  "mk_strategy ms ml thr ps =
     \<lparr> id_s = ''base_1'', user_id = None, name = ''Base'', type_s = Base,
       parameters = \<lparr> ma_short = ms, ma_long = ml, rsi_threshold = thr, position_size = ps,
                      stop_loss = None, take_profit = None \<rparr>,
       metrics = None, created_at = 0, parent_id = None \<rparr>"

text \<open>
  Series for the examples: sixteen flat bars; twelve bars with a spike; sixteen bars with
  an early drop and two rising bars at the end; the same with a round trip after it.
  \<open>variant_example\<close> is a strategy that \<open>generateVariants\<close> returns when every draw is 0.33.
\<close>

definition bars_flat :: "MarketData list" where
  "bars_flat = mk_bars [100, 100, 100, 100, 100, 100, 100, 100, 100, 100, 100, 100, 100, 100, 100, 100]"

definition bars_short :: "MarketData list" where
  "bars_short = mk_bars [100, 100, 100, 110, 100, 100, 100, 100, 105, 120, 100, 100]"

definition bars_dip :: "MarketData list" where
  "bars_dip = mk_bars [100, 100, 50, 50, 50, 50, 50, 50, 50, 50, 50, 50, 50, 50, 51, 52]"

definition bars_round_trip :: "MarketData list" where
  "bars_round_trip =
     mk_bars [100, 100, 50, 50, 50, 50, 50, 50, 50, 50, 50, 50, 50, 50, 51, 52, 53, 54, 50, 50, 60]"

definition variant_example :: Strategy where
  "variant_example =
     hd (generateVariants (mk_strategy 15 40 30 0.15) 1 (\<lambda>k. 33 / 100) (\<lambda>k. 1700000000000))"

section \<open>Auxiliary predicates\<close>

text \<open>A number that is neither NaN nor negative, and a number that is at least 1.\<close>

fun js_nonneg :: "jsnum \<Rightarrow> bool" where
  "js_nonneg (Fin a) = (0 \<le> a)"
| "js_nonneg PInf = True"
| "js_nonneg _ = False"

fun js_ge1 :: "jsnum \<Rightarrow> bool" where
  "js_ge1 (Fin a) = (1 \<le> a)"
| "js_ge1 PInf = True"
| "js_ge1 _ = False"

text \<open>
  A list of trade types that alternates, starting with the given type; the invariant of
  the signal loop (flat with cash and an even number of trades, or holding with an odd
  number); and the rounds of the signal loop that \<^verbatim>\<open>continue\<close> before the equity update.
\<close>

fun alternates :: "trade_type \<Rightarrow> trade_type list \<Rightarrow> bool" where
  "alternates e [] = True"
| "alternates e (t # ts) = (t = e \<and> alternates (if e = BUY then SELL else BUY) ts)"

definition sim_inv :: "sim_state \<Rightarrow> bool" where
  "sim_inv st =
     (alternates BUY (map trade_type (trades st)) \<and>
      (position st = 0 \<and> 0 < capital st \<and> even (length (trades st)) \<or>
       0 < position st \<and> 0 \<le> capital st \<and> odd (length (trades st))))"

definition round_skipped :: "MarketData list \<Rightarrow> real list \<Rightarrow> real list \<Rightarrow> real \<Rightarrow> bool" where
  "round_skipped d ms ml i =
     (js_index d i = None \<or> js_index ms i = None \<or> js_index ml i = None \<or>
      js_index ms i = Some 0 \<or> js_index ml i = Some 0)"

section \<open>Array reads and loop counters\<close>

lemma js_index_nat: "js_index xs (real k) = (if k < length xs then Some (xs ! k) else None)"
  by (simp add: js_index_def)



section \<open>Properties of the moving average\<close>












section \<open>Properties of the variant generator\<close>

text \<open>
  C9. For every base strategy, every count \<open>N\<close>, every sequence of random draws and
  every clock, \<open>generateVariants\<close> returns exactly \<open>N\<close> strategies, each of type
  \<open>Optimized\<close> with \<open>parent_id\<close> the id of the base, \<open>position_size\<close> in \<open>[0.10, 0.20]\<close>,
  \<open>ma_short \<ge> 10\<close>, \<open>ma_long \<ge> 30\<close> and \<open>rsi_threshold\<close> in \<open>[25, 35]\<close>.
\<close>

theorem generateVariants_bounds:
  "length (generateVariants b N rnd clock) = N \<and>
   (\<forall>v \<in> set (generateVariants b N rnd clock).
      type_s v = Optimized \<and> parent_id v = Some (id_s b) \<and>
      0.10 \<le> position_size (parameters v) \<and> position_size (parameters v) \<le> 0.20 \<and>
      10 \<le> ma_short (parameters v) \<and> 30 \<le> ma_long (parameters v) \<and>
      25 \<le> rsi_threshold (parameters v) \<and> rsi_threshold (parameters v) \<le> 35)"
proof -
  have one: "type_s (make_variant b rnd clock i) = Optimized \<and>
      parent_id (make_variant b rnd clock i) = Some (id_s b) \<and>
      0.10 \<le> position_size (parameters (make_variant b rnd clock i)) \<and>
      position_size (parameters (make_variant b rnd clock i)) \<le> 0.20 \<and>
      10 \<le> ma_short (parameters (make_variant b rnd clock i)) \<and>
      30 \<le> ma_long (parameters (make_variant b rnd clock i)) \<and>
      25 \<le> rsi_threshold (parameters (make_variant b rnd clock i)) \<and>
      rsi_threshold (parameters (make_variant b rnd clock i)) \<le> 35" for i
    by (simp add: make_variant_def Let_def)
  show ?thesis
    using one by (auto simp: generateVariants_def)
qed

theorem generateVariants_bounds_witness:
  "length (generateVariants (mk_strategy 15 40 30 0.15) 2 (\<lambda>k. real (k mod 5) / 5) (\<lambda>k. 1700000000000 + k)) = 2 \<and>
   map (\<lambda>v. (type_s v, parent_id v, position_size (parameters v), ma_short (parameters v),
              ma_long (parameters v), rsi_threshold (parameters v)))
     (generateVariants (mk_strategy 15 40 30 0.15) 2 (\<lambda>k. real (k mod 5) / 5) (\<lambda>k. 1700000000000 + k)) =
     [(Optimized, Some ''base_1'', 0.12, 12, 38, 31), (Optimized, Some ''base_1'', 0.192, 10, 34, 29)]"
  using generateVariants_bounds [of "mk_strategy 15 40 30 0.15" 2 "\<lambda>k. real (k mod 5) / 5"
          "\<lambda>k. 1700000000000 + k"]
  by (simp add: generateVariants_def make_variant_def mk_strategy_def upt_rec Let_def)

text \<open>The ids carry the clock reading and the loop counter.\<close>

lemma variant_ids:
  "map id_s (generateVariants (mk_strategy 15 40 30 0.15) 2 (\<lambda>k. real (k mod 5) / 5) (\<lambda>k. 1700000000000 + k)) =
     [''strategy_1700000000000_0'', ''strategy_1700000000002_1'']"
  by (simp add: generateVariants_def make_variant_def mk_strategy_def upt_rec Let_def)

section \<open>Properties of the metrics calculator\<close>

subsection \<open>Overflow\<close>

lemma js_threshold_bounds: "10 ^ 308 < js_threshold" "js_threshold \<le> 2 * 10 ^ 308 - 3"
  by (simp_all add: js_threshold_def)

lemma js_fin_Fin: "- js_threshold < x \<Longrightarrow> x < js_threshold \<Longrightarrow> js_fin x = Fin x"
  by (simp add: js_fin_def)

lemma js_fin_PInf: "js_threshold \<le> x \<Longrightarrow> js_fin x = PInf"
  by (simp add: js_fin_def)

lemma js_fin_moderate: "\<bar>x\<bar> \<le> 10 ^ 12 \<Longrightarrow> js_fin x = Fin x"
proof -
  assume "\<bar>x\<bar> \<le> 10 ^ 12"
  moreover have "(10::real) ^ 12 < 10 ^ 308" by simp
  ultimately have "- js_threshold < x" "x < js_threshold"
    using js_threshold_bounds(1) by linarith+
  then show ?thesis by (rule js_fin_Fin)
qed

lemma js_fin_not_NaN [simp]: "js_fin x \<noteq> NaN"
  by (simp add: js_fin_def)

lemma js_add_Fin:
  "- js_threshold < a + b \<Longrightarrow> a + b < js_threshold \<Longrightarrow> js_add (Fin a) (Fin b) = Fin (a + b)"
  by (simp add: js_fin_Fin)

lemma js_sub_Fin:
  "- js_threshold < a - b \<Longrightarrow> a - b < js_threshold \<Longrightarrow> js_sub (Fin a) (Fin b) = Fin (a - b)"
  by (simp add: js_sub_def js_fin_Fin)

lemma js_div_Fin:
  "b \<noteq> 0 \<Longrightarrow> - js_threshold < a / b \<Longrightarrow> a / b < js_threshold \<Longrightarrow>
   js_div (Fin a) (Fin b) = Fin (a / b)"
  by (simp add: js_fin_Fin)

subsection \<open>Sharpe ratio\<close>

text \<open>
  A NaN among the squared deviations makes the standard deviation NaN, the comparison
  \<open>std_return > 0\<close> false and the Sharpe ratio its floor 1. \<^verbatim>\<open>Math.max(1.0, x)\<close> is at
  least 1 unless \<open>x\<close> is NaN, and \<open>x\<close> is NaN only when the mean return is infinite.
\<close>

lemma js_add_NaN_right [simp]: "js_add a NaN = NaN"
  by (cases a) simp_all

lemma foldl_add_NaN: "foldl (\<lambda>s r. js_add s (g r)) NaN rs = NaN"
  by (induction rs) simp_all

lemma foldl_add_has_NaN:
  "r \<in> set rs \<Longrightarrow> g r = NaN \<Longrightarrow> foldl (\<lambda>s r. js_add s (g r)) acc rs = NaN"
proof (induction rs arbitrary: acc)
  case Nil
  then show ?case by simp
next
  case (Cons x xs)
  show ?case
  proof (cases "x = r")
    case True
    then show ?thesis using Cons.prems by (simp add: foldl_add_NaN)
  next
    case False
    then show ?thesis using Cons by simp
  qed
qed

lemma js_max_floor: "y \<noteq> NaN \<Longrightarrow> js_ge1 (js_max (Fin 1) y)"
  by (cases y) auto

lemma js_max_floor_or_NaN: "js_max (Fin 1) y = NaN \<or> js_ge1 (js_max (Fin 1) y)"
  by (cases y) auto

lemma js_mul_pos_not_NaN: "x \<noteq> NaN \<Longrightarrow> 0 < c \<Longrightarrow> js_mul x (Fin c) \<noteq> NaN"
  by (cases x) auto

lemma js_div_by_pos_not_NaN: "js_gt sd (Fin 0) \<Longrightarrow> js_div (Fin a) sd \<noteq> NaN"
  by (cases sd) auto

lemma std_NaN_of_avg_NaN:
  "js_sqrt (js_div (foldl (\<lambda>sum r. js_add sum (js_pow2 (js_sub r NaN))) (Fin 0) rs)
      (Fin (real (length rs)))) = NaN"
proof (cases rs)
  case Nil
  then show ?thesis by simp
next
  case (Cons x xs)
  then have "x \<in> set rs" by simp
  moreover have "js_pow2 (js_sub x NaN) = NaN"
    by (simp add: js_pow2_def js_sub_def)
  ultimately have "foldl (\<lambda>sum r. js_add sum (js_pow2 (js_sub r NaN))) (Fin 0) rs = NaN"
    by (rule foldl_add_has_NaN)
  then show ?thesis by simp
qed

lemma sharpe_ratio_unfold:
  "sharpe_ratio (calculateMetrics curve ts) =
     js_max (Fin 1)
       (js_mul
          (if js_gt (js_sqrt (js_div
                 (foldl (\<lambda>sum r. js_add sum (js_pow2 (js_sub r (avg_return_of curve)))) (Fin 0)
                    (daily_returns curve))
                 (Fin (real (length (daily_returns curve)))))) (Fin 0)
           then js_mul
                  (js_div (avg_return_of curve)
                     (js_sqrt (js_div
                        (foldl (\<lambda>sum r. js_add sum (js_pow2 (js_sub r (avg_return_of curve))))
                           (Fin 0) (daily_returns curve))
                        (Fin (real (length (daily_returns curve)))))))
                  (js_sqrt (Fin 252))
           else Fin 0)
          (Fin 1.5))"
  by (simp add: calculateMetrics_def Let_def)

lemma sharpe_ratio_floor_or_NaN:
  "sharpe_ratio (calculateMetrics curve ts) = NaN \<or> js_ge1 (sharpe_ratio (calculateMetrics curve ts))"
  unfolding sharpe_ratio_unfold by (rule js_max_floor_or_NaN)

lemma sharpe_ratio_floor_unless_mean_infinite:
  assumes "avg_return_of curve \<noteq> PInf" "avg_return_of curve \<noteq> NInf"
  shows "js_ge1 (sharpe_ratio (calculateMetrics curve ts))"
proof -
  define sd where "sd = js_sqrt (js_div
      (foldl (\<lambda>sum r. js_add sum (js_pow2 (js_sub r (avg_return_of curve)))) (Fin 0)
         (daily_returns curve))
      (Fin (real (length (daily_returns curve)))))"
  have sr: "sharpe_ratio (calculateMetrics curve ts) =
      js_max (Fin 1)
        (js_mul (if js_gt sd (Fin 0)
                 then js_mul (js_div (avg_return_of curve) sd) (js_sqrt (Fin 252)) else Fin 0)
           (Fin 1.5))"
    unfolding sharpe_ratio_unfold sd_def by (rule refl)
  have "js_mul (if js_gt sd (Fin 0)
                 then js_mul (js_div (avg_return_of curve) sd) (js_sqrt (Fin 252)) else Fin 0)
           (Fin 1.5) \<noteq> NaN"
  proof (cases "js_gt sd (Fin 0)")
    case False
    then show ?thesis by simp
  next
    case True
    have "avg_return_of curve \<noteq> NaN"
    proof
      assume "avg_return_of curve = NaN"
      then have "sd = NaN" unfolding sd_def by (simp only: std_NaN_of_avg_NaN)
      then show False using True by simp
    qed
    then obtain a where a: "avg_return_of curve = Fin a"
      using assms by (cases "avg_return_of curve") simp_all
    have "js_div (Fin a) sd \<noteq> NaN" using True by (rule js_div_by_pos_not_NaN)
    then have "js_mul (js_div (Fin a) sd) (Fin (sqrt 252)) \<noteq> NaN"
      by (rule js_mul_pos_not_NaN) simp
    then have "js_mul (js_mul (js_div (Fin a) sd) (Fin (sqrt 252))) (Fin 1.5) \<noteq> NaN"
      by (rule js_mul_pos_not_NaN) simp
    then show ?thesis using True a by simp
  qed
  then show ?thesis unfolding sr by (rule js_max_floor)
qed

text \<open>
  Where the sum of the daily returns overflows, the mean and the standard deviation are
  both infinite, their quotient is NaN and so is \<^verbatim>\<open>Math.max(1.0, NaN)\<close>.
\<close>

lemma avg_return_overflow:
  assumes h: "3 \<le> h" "h < js_threshold" "js_threshold \<le> 2 * h - 3"
  shows "daily_returns [1, h, 1, h] = [Fin ((h - 1) / 1), Fin ((1 - h) / h), Fin ((h - 1) / 1)]"
    and "avg_return_of [1, h, 1, h] = PInf"
proof -
  define q where "q = (1 - h) / h"
  have "q = 1 / h - 1" using h(1) by (simp add: q_def field_simps)
  moreover have "0 < 1 / h" "1 / h \<le> 1" using h(1) by simp_all
  ultimately have q: "- 1 < q" "q \<le> 0" by linarith+
  have d1: "js_sub (Fin h) (Fin 1) = Fin (h - 1)"
    by (rule js_sub_Fin) (use h in linarith)+
  have r1: "js_div (Fin (h - 1)) (Fin 1) = Fin ((h - 1) / 1)"
    by (rule js_div_Fin) (use h in simp_all)
  have d2: "js_sub (Fin 1) (Fin h) = Fin (1 - h)"
    by (rule js_sub_Fin) (use h in linarith)+
  have r2: "js_div (Fin (1 - h)) (Fin h) = Fin ((1 - h) / h)"
    by (rule js_div_Fin) (use h q in \<open>simp_all add: q_def [symmetric]\<close>)
  show rets: "daily_returns [1, h, 1, h] = [Fin ((h - 1) / 1), Fin ((1 - h) / h), Fin ((h - 1) / 1)]"
    by (simp only: daily_returns.simps d1 d2 r1 r2)
  have s1: "js_add (Fin 0) (Fin ((h - 1) / 1)) = Fin (0 + (h - 1) / 1)"
    by (rule js_add_Fin) (use h in simp_all)
  have s2: "js_add (Fin (0 + (h - 1) / 1)) (Fin ((1 - h) / h)) = Fin (0 + (h - 1) / 1 + (1 - h) / h)"
    by (rule js_add_Fin) (use h q in \<open>simp_all add: q_def [symmetric]\<close>)
  have "js_threshold \<le> 0 + (h - 1) / 1 + (1 - h) / h + (h - 1) / 1"
    using h q by (simp add: q_def [symmetric])
  then have s3: "js_add (Fin (0 + (h - 1) / 1 + (1 - h) / h)) (Fin ((h - 1) / 1)) = PInf"
    by (simp only: js_add.simps js_fin_PInf)
  show "avg_return_of [1, h, 1, h] = PInf"
    unfolding avg_return_of_def Let_def rets
    by (simp only: foldl.simps s1 s2 s3) simp
qed

lemma sharpe_overflow:
  assumes h: "3 \<le> h" "h < js_threshold" "js_threshold \<le> 2 * h - 3"
  shows "sharpe_ratio (calculateMetrics [1, h, 1, h] ts) = NaN"
  unfolding calculateMetrics_def Let_def avg_return_overflow [OF h]
  by (simp add: js_pow2_def js_sub_def)

text \<open>
  C6 fails where the sum of the daily returns overflows. On the finite curve
  \<open>[1, 10 ^ 308, 1, 10 ^ 308]\<close> the returns are about \<open>10 ^ 308\<close>, \<open>-1\<close> and \<open>10 ^ 308\<close>; their
  sum overflows, \<open>avg_return\<close> and \<open>std_return\<close> are both infinite, \<open>actual_sharpe\<close> is NaN
  and the reported \<open>sharpe_ratio\<close> is \<^verbatim>\<open>Math.max(1.0, NaN)\<close>, which is NaN and not at least
  1.0. By \<open>sharpe_ratio_floor_unless_mean_infinite\<close> the floor holds on every curve whose
  mean return is not infinite, and by \<open>drawdown_and_win_rate_bounds\<close> the other two bounds
  of the claim hold on every curve.
\<close>

theorem calculateMetrics_sharpe_ratio_overflow:
  "sharpe_ratio (calculateMetrics [1, 10 ^ 308, 1, 10 ^ 308] []) = NaN"
  by (rule sharpe_overflow) (use js_threshold_bounds in simp_all)

subsection \<open>Drawdown and win rate\<close>

lemma js_gt_nonneg: "js_gt d m \<Longrightarrow> js_nonneg m \<Longrightarrow> js_nonneg d"
  by (cases d; cases m) auto

lemma dd_step_nonneg:
  assumes "js_nonneg (snd acc)"
  shows "js_nonneg (snd (dd_step e acc))"
proof -
  have "snd (dd_step e acc) = snd acc \<or> js_gt (snd (dd_step e acc)) (snd acc)"
    by (simp add: dd_step_def Let_def)
  then show ?thesis using assms js_gt_nonneg by auto
qed

lemma fold_dd_step_nonneg: "js_nonneg (snd acc) \<Longrightarrow> js_nonneg (snd (fold dd_step es acc))"
  by (induction es arbitrary: acc) (simp_all add: dd_step_nonneg)

lemma raw_max_drawdown_nonneg: "js_nonneg (raw_max_drawdown curve)"
proof (cases curve)
  case Nil
  then show ?thesis by (simp add: raw_max_drawdown_def)
next
  case (Cons first rest)
  have "js_nonneg (snd (fold dd_step curve (first, Fin 0)))"
    by (rule fold_dd_step_nonneg) simp
  then show ?thesis using Cons by (simp only: raw_max_drawdown_def list.case)
qed

lemma capped_drawdown: "js_nonneg m \<Longrightarrow> \<exists>d. js_neg (js_min m (Fin 10)) = Fin d \<and> - 10 \<le> d \<and> d \<le> 0"
  by (cases m) auto

lemma drawdown_and_win_rate_bounds:
  "\<exists>d. max_drawdown (calculateMetrics curve ts) = Fin d \<and> - 10 \<le> d \<and> d \<le> 0 \<and>
       60 \<le> win_rate (calculateMetrics curve ts) \<and>
       win_rate (calculateMetrics curve ts) \<le> 75"
proof -
  have "max_drawdown (calculateMetrics curve ts) = js_neg (js_min (raw_max_drawdown curve) (Fin 10))"
    by (simp add: calculateMetrics_def Let_def)
  then obtain d where d: "max_drawdown (calculateMetrics curve ts) = Fin d" "- 10 \<le> d" "d \<le> 0"
    using capped_drawdown [OF raw_max_drawdown_nonneg, of curve] by auto
  have w: "60 \<le> win_rate (calculateMetrics curve ts) \<and> win_rate (calculateMetrics curve ts) \<le> 75"
    by (simp add: calculateMetrics_def Let_def)
  show ?thesis using d w by blast
qed

text \<open>
  Curves on which a divisor is zero: a peak of 0 above a negative equity gives an infinite
  drawdown, which the cap turns into 10; a zero inside the curve gives an infinite daily
  return, the standard deviation becomes NaN and the Sharpe ratio falls to its floor.
\<close>

lemma metrics_with_a_zero_divisor:
  "max_drawdown (calculateMetrics [0, - 5] []) = Fin (- 10) \<and>
   sharpe_ratio (calculateMetrics [100, 0, 50] []) = Fin 1"
  by (simp add: calculateMetrics_def avg_return_of_def raw_max_drawdown_def dd_step_def
        js_pow2_def js_sub_def js_fin_moderate Let_def)

subsection \<open>Total return\<close>

lemma initial_capital_of_hd:
  "initial_capital_of curve = (if curve = [] \<or> hd curve = 0 then 100000 else hd curve)"
  by (cases curve) (simp_all add: initial_capital_of_def)

lemma initial_capital_of_nonzero: "initial_capital_of curve \<noteq> 0"
  by (cases curve) (simp_all add: initial_capital_of_def)

text \<open>
  What the source computes: the first entry is replaced by 100000 when the curve is empty
  or that entry is 0, the last entry by the initial capital when the curve is empty or
  that entry is 0. Where the curve is empty, or neither its first nor its last entry is 0,
  this is the specification's formula.
\<close>

lemma total_return_formula:
  "total_return (calculateMetrics curve ts) =
     (let ini = (if curve = [] \<or> hd curve = 0 then 100000 else hd curve);
          fin = (if curve = [] \<or> last curve = 0 then ini else last curve)
      in js_add (Fin 10) (js_mul (js_div (js_sub (Fin fin) (Fin ini)) (Fin ini)) (Fin 100)))"
  by (simp add: calculateMetrics_def final_capital_of_def initial_capital_of_hd Let_def)

lemma total_return_agrees_with_spec:
  assumes "curve = [] \<or> (hd curve \<noteq> 0 \<and> last curve \<noteq> 0)"
  shows "total_return (calculateMetrics curve ts) = spec_total_return curve"
  using assms by (auto simp: total_return_formula spec_total_return_def Let_def)

text \<open>
  The product with 100 can overflow as well: on the curve of the Sharpe example the total
  return is infinite.
\<close>

lemma total_return_overflow:
  assumes h: "3 \<le> h" "h < js_threshold" "js_threshold \<le> 2 * h - 3"
  shows "total_return (calculateMetrics [1, h, 1, h] ts) = PInf"
proof -
  have d: "js_sub (Fin h) (Fin 1) = Fin (h - 1)"
    by (rule js_sub_Fin) (use h in linarith)+
  have q: "js_div (Fin (h - 1)) (Fin 1) = Fin ((h - 1) / 1)"
    by (rule js_div_Fin) (use h in simp_all)
  have "js_threshold \<le> (h - 1) / 1 * 100" using h by simp
  then have m: "js_mul (Fin ((h - 1) / 1)) (Fin 100) = PInf"
    by (simp only: js_mul.simps js_fin_PInf)
  have "initial_capital_of [1, h, 1, h] = 1" "final_capital_of [1, h, 1, h] = h"
    using h by (simp_all add: initial_capital_of_def final_capital_of_def)
  then show ?thesis
    unfolding calculateMetrics_def Let_def
    by (simp only: d q m StrategyMetrics.simps js_add.simps)
qed

lemma total_return_overflow_example:
  "total_return (calculateMetrics [1, 10 ^ 308, 1, 10 ^ 308] []) = PInf"
  by (rule total_return_overflow) (use js_threshold_bounds in simp_all)

text \<open>
  C7 fails on a curve that ends in 0. \<^verbatim>\<open>equity_curve[length - 1] || initial_capital\<close>, the
  default for an empty curve, also swallows a final equity of 0: on \<open>[100000, 0]\<close> the
  source reports a total return of 10, where 10 plus the return between the first and the
  last entry is \<open>-90\<close>. The same call reads that 0 as a value for the drawdown, which it
  reports at its cap.
\<close>

theorem calculateMetrics_final_zero_total_return:
  "total_return (calculateMetrics [100000, 0] []) = Fin 10 \<and>
   spec_total_return [100000, 0] = Fin (- 90) \<and>
   max_drawdown (calculateMetrics [100000, 0] []) = Fin (- 10)"
  by (simp add: calculateMetrics_def spec_total_return_def initial_capital_of_def
        final_capital_of_def raw_max_drawdown_def dd_step_def js_sub_def js_fin_moderate Let_def)

section \<open>Properties of the backtest simulator\<close>

subsection \<open>The example series\<close>

lemma length_mk_bars: "length (mk_bars cs) = length cs"
  by (simp add: mk_bars_def)

lemma mk_bars_props: "b \<in> set (mk_bars cs) \<Longrightarrow> close b \<in> set cs \<and> date b \<noteq> None"
  by (auto simp: mk_bars_def mk_bar_def in_set_enumerate_eq)

lemma valid_bars_mk_bars:
  assumes "\<And>c. c \<in> set cs \<Longrightarrow> 0 < c"
  shows "valid_bars (mk_bars cs) = mk_bars cs"
  unfolding valid_bars_def using assms mk_bars_props by (intro filter_True) blast

subsection \<open>A start index that is not whole\<close>

text \<open>
  When \<open>ma_long\<close> is above 14 and not a whole number, the counter of both loops never
  is an index of a bar: the signal loop skips every round, the fallback runs, and its
  rebuild loop reads \<^verbatim>\<open>.close\<close> of a missing bar in its first round.
\<close>

lemma js_index_frac: "i \<noteq> of_int \<lfloor>i\<rfloor> \<Longrightarrow> js_index xs i = None"
  by (simp add: js_index_def)

lemma frac_shift:
  assumes "i \<noteq> of_int \<lfloor>i\<rfloor>"
  shows "i + real k \<noteq> of_int \<lfloor>i + real k\<rfloor>"
proof
  assume "i + real k = of_int \<lfloor>i + real k\<rfloor>"
  then have "i = of_int (\<lfloor>i + real k\<rfloor> - int k)" by simp
  then have "i \<in> \<int>" by (metis Ints_of_int)
  then show False using assms by (simp add: Ints_def) 
qed

lemma signal_step_frac:
  "i \<noteq> of_int \<lfloor>i\<rfloor> \<Longrightarrow> signal_step p d ms ml rsi i st = st"
  by (simp add: signal_step_def js_index_frac)

lemma fold_id: "(\<And>x. x \<in> set xs \<Longrightarrow> f x = (\<lambda>s. s)) \<Longrightarrow> fold f xs st = st"
  by (induction xs arbitrary: st) simp_all

lemma signal_loop_frac:
  assumes "start \<noteq> of_int \<lfloor>start\<rfloor>"
  shows "signal_loop p d ms ml rsi start =
           \<lparr> capital = 100000, position = 0, trades = [], equity_curve = [100000],
             lastBuyIndex = - 1 \<rparr>"
  unfolding signal_loop_def
proof (rule fold_id)
  fix i assume "i \<in> set (js_for_from start (real (length d)))"
  then obtain k where "i = start + real k" by (auto simp: js_for_from_def)
  then have "i \<noteq> of_int \<lfloor>i\<rfloor>" using frac_shift [OF assms] by simp
  then show "signal_step p d ms ml rsi i = (\<lambda>s. s)"
    by (intro ext) (rule signal_step_frac)
qed

lemma js_for_from_Cons:
  assumes "start < bound"
  shows "js_for_from start bound = start # js_for_from (start + 1) bound"
proof -
  have pos: "0 < \<lceil>bound - start\<rceil>" using assms by simp
  have "\<lceil>bound - (start + 1)\<rceil> = \<lceil>bound - start\<rceil> - 1"
    by (metis add_diff_cancel_left' ceiling_diff_one diff_diff_add)
  then have "nat \<lceil>bound - start\<rceil> = Suc (nat \<lceil>bound - (start + 1)\<rceil>)"
    using pos by linarith
  then show ?thesis
    by (simp add: js_for_from_def upt_conv_Cons map_Suc_upt [symmetric] del: upt_Suc)
qed

lemma js_for_from_Nil: "bound \<le> start \<Longrightarrow> js_for_from start bound = []"
  by (simp add: js_for_from_def)

lemma run_signals_fractional:
  assumes "ma_long (parameters s) \<noteq> of_int \<lfloor>ma_long (parameters s)\<rfloor>"
    and "14 < ma_long (parameters s)"
  shows "trades (run_signals s v) = []"
proof -
  have "max (ma_long (parameters s)) 14 = ma_long (parameters s)" using assms(2) by simp
  then show ?thesis
    by (simp add: run_signals_def Let_def signal_loop_frac [OF assms(1)])
qed

lemma backtest_run_fractional_ma_long:
  assumes frac: "ma_long (parameters s) \<noteq> of_int \<lfloor>ma_long (parameters s)\<rfloor>"
    and big: "14 < ma_long (parameters s)"
    and enough: "ma_long (parameters s) \<le> real (length (valid_bars md))"
  shows "backtest_run s (Some md) r = Inl TypeError"
proof -
  let ?v = "valid_bars md"
  let ?m = "ma_long (parameters s)"
  have start: "max ?m 14 = ?m" using big by simp
  have "?v \<noteq> []" using big enough by auto
  then have md: "md \<noteq> []" by (auto simp: valid_bars_def)
  have lt: "?m < real (length ?v)"
  proof (rule ccontr)
    assume "\<not> ?m < real (length ?v)"
    then have "?m = real (length ?v)" using enough by simp
    then have "?m = of_int \<lfloor>?m\<rfloor>" by simp
    then show False using frac by simp
  qed
  have tr: "trades (run_signals s ?v) = []"
    by (simp add: run_signals_def Let_def start signal_loop_frac [OF frac])
  have reb: "rebuild ?v b sl bp sp tp (js_for_from ?m (real (length ?v))) acc = Inl TypeError"
    for b sl bp sp tp acc
    by (cases acc) (simp add: js_for_from_Cons [OF lt] js_index_frac [OF frac] Let_def)
  have "fallback (parameters s) ?v ?m r = Inl TypeError"
    by (simp add: fallback_def Let_def reb split: option.splits)
  then show ?thesis
    using md enough tr by (simp add: backtest_run_def Let_def start)
qed

subsection \<open>A whole start index\<close>

lemma js_for_from_nat: "js_for_from (real k) (real n) = map real [k..<n]"
proof -
  have "nat \<lceil>real n - real k\<rceil> = n - k"
  proof (cases "k \<le> n")
    case True
    then have "real n - real k = real (n - k)" by (simp add: of_nat_diff)
    then show ?thesis by (simp only: ceiling_of_nat nat_int)
  next
    case False
    then have "real n - real k \<le> 0" by simp
    then have "\<lceil>real n - real k\<rceil> \<le> 0" by (simp add: ceiling_le_zero)
    then show ?thesis using False by simp
  qed
  moreover have "map (\<lambda>j. real k + real j) [0..<n - k] = map real (map (\<lambda>j. j + k) [0..<n - k])"
    by (simp add: add.commute)
  moreover have "map (\<lambda>j. j + k) [0..<n - k] = [k..<n]"
    by (cases "k \<le> n") (simp_all add: map_add_upt)
  ultimately show ?thesis by (simp add: js_for_from_def)
qed

lemma rebuild_nat:
  assumes "\<And>k. k \<in> set ks \<Longrightarrow> k < length d"
  shows "\<exists>c q curve'. rebuild d b sl bp sp tp (map real ks) (cap, pos, curve) = Inr (c, q, curve')
           \<and> length curve' = length curve + length ks"
  using assms
proof (induction ks arbitrary: cap pos curve)
  case Nil
  show ?case by simp
next
  case (Cons k ks)
  define traded where "traded = rebuild_step b sl bp sp tp (real k) (cap, pos)"
  have k: "js_index d (real k) = Some (d ! k)" using Cons.prems by (simp add: js_index_nat)
  have rest: "\<And>j. j \<in> set ks \<Longrightarrow> j < length d" using Cons.prems by simp
  obtain c q curve' where
    "rebuild d b sl bp sp tp (map real ks)
       (fst traded, snd traded, curve @ [fst traded + snd traded * close (d ! k)]) = Inr (c, q, curve')"
    "length curve' = length (curve @ [fst traded + snd traded * close (d ! k)]) + length ks"
    using Cons.IH [OF rest] by blast
  then show ?case
    by (simp add: k Let_def traded_def)
qed

lemma floor_quarter: "\<lfloor>real n * 0.25\<rfloor> = int (n div 4)"
proof -
  have "real n * 0.25 = real n / real 4" by simp
  then show ?thesis by (simp only: floor_divide_of_nat_eq)
qed

lemma fallback_returns:
  assumes n: "1 \<le> length v" and r: "0 \<le> r"
  shows "\<exists>res. fallback p v (real k) r = Inr res"
proof -
  let ?n = "length v"
  let ?b = "?n div 4"
  let ?s = "min (?b + 5 + nat \<lfloor>r * 3\<rfloor>) (?n - 1)"
  have bi: "of_int \<lfloor>real ?n * 0.25\<rfloor> = real ?b"
    by (simp only: floor_quarter of_int_of_nat_eq)
  have "0 \<le> \<lfloor>r * 3\<rfloor>" using r by simp
  then have fl: "of_int \<lfloor>r * 3\<rfloor> = real (nat \<lfloor>r * 3\<rfloor>)" by simp
  have "real (?n - 1) = real ?n - 1" using n by (simp add: of_nat_diff)
  moreover have "real (?b + 5 + nat \<lfloor>r * 3\<rfloor>) = real ?b + 5 + real (nat \<lfloor>r * 3\<rfloor>)" by simp
  ultimately have si: "min (real ?b + 5 + of_int \<lfloor>r * 3\<rfloor>) (real ?n - 1) = real ?s"
    unfolding fl by (simp only: of_nat_min)
  have b: "js_index v (real ?b) = Some (v ! ?b)" using n by (simp add: js_index_nat)
  have "?s < ?n" using n by simp
  then have s: "js_index v (real ?s) = Some (v ! ?s)" by (simp only: js_index_nat if_True)
  have "\<exists>c q curve'. rebuild v (real ?b) (real ?s) (close (v ! ?b)) (close (v ! ?s))
        (100000 * position_size p / close (v ! ?b)) (map real [k..<?n]) (100000, 0, []) = Inr (c, q, curve')
        \<and> length curve' = length ([]::real list) + length [k..<?n]"
    by (rule rebuild_nat) simp
  then obtain c q curve' where reb:
    "rebuild v (real ?b) (real ?s) (close (v ! ?b)) (close (v ! ?s))
        (100000 * position_size p / close (v ! ?b)) (map real [k..<?n]) (100000, 0, []) = Inr (c, q, curve')"
    by blast
  show ?thesis
    unfolding fallback_def Let_def bi si b s option.case js_for_from_nat reb sum.case
    by blast
qed

lemma backtest_run_returns:
  assumes k: "ma_long (parameters s) = real k"
    and md: "md \<noteq> []"
    and v: "1 \<le> length (valid_bars md)"
    and enough: "k \<le> length (valid_bars md)"
    and r: "0 \<le> r"
  shows "\<exists>res. backtest_run s (Some md) r = Inr res"
proof -
  have m: "max (real k) 14 = real (max k 14)" by simp
  have fb: "\<exists>res. fallback (parameters s) (valid_bars md) (max (ma_long (parameters s)) 14) r = Inr res"
    unfolding k m by (rule fallback_returns [OF v r])
  have ok: "\<not> real (length (valid_bars md)) < ma_long (parameters s)"
    using enough k by simp
  show ?thesis
  proof (cases "length (trades (run_signals s (valid_bars md))) < 2")
    case True
    then show ?thesis using md ok fb by (simp add: backtest_run_def Let_def)
  next
    case False
    then show ?thesis using md ok by (simp add: backtest_run_def Let_def)
  qed
qed

subsection \<open>The fallback\<close>

lemma rebuild_length:
  "rebuild d b sl bp sp tp idxs (cap, pos, curve) = Inr (c, q, curve') \<Longrightarrow>
   length curve' = length curve + length idxs"
proof (induction idxs arbitrary: cap pos curve)
  case Nil
  then show ?case by simp
next
  case (Cons i idxs)
  then show ?case
    by (cases "js_index d i") (auto simp: Let_def)
qed

lemma rebuild_step_untouched:
  "i \<noteq> b \<Longrightarrow> rebuild_step b sl bp sp tp i (100000, 0) = (100000, 0)"
  by (simp add: rebuild_step_def Let_def)

lemma rebuild_untouched:
  assumes "rebuild d b sl bp sp tp idxs (100000, 0, curve) = Inr (c, q, curve')"
    and "\<And>i. i \<in> set idxs \<Longrightarrow> i \<noteq> b"
  shows "curve' = curve @ replicate (length idxs) 100000"
  using assms
proof (induction idxs arbitrary: curve)
  case Nil
  then show ?case by simp
next
  case (Cons i idxs)
  have i: "i \<noteq> b" using Cons.prems(2) by simp
  obtain bar where bar: "js_index d i = Some bar"
    using Cons.prems(1) by (cases "js_index d i") (simp_all add: Let_def)
  have "rebuild d b sl bp sp tp idxs (100000, 0, curve @ [100000]) = Inr (c, q, curve')"
    using Cons.prems(1) by (simp add: Let_def bar rebuild_step_untouched [OF i])
  then have "curve' = (curve @ [100000]) @ replicate (length idxs) 100000"
    using Cons.prems(2) by (intro Cons.IH) simp_all
  then show ?case by (simp add: replicate_app_Cons_same)
qed

lemma js_for_from_ge: "i \<in> set (js_for_from start bound) \<Longrightarrow> start \<le> i"
  by (auto simp: js_for_from_def)

lemma fallback_Inr:
  assumes "fallback p v start r = Inr (curve, ts)"
  shows "map trade_type ts = [BUY, SELL] \<and>
         length curve = length (js_for_from start (real (length v))) \<and>
         (of_int \<lfloor>real (length v) * 0.25\<rfloor> < start \<longrightarrow> curve = replicate (length curve) 100000)"
proof -
  let ?b = "of_int \<lfloor>real (length v) * 0.25\<rfloor> :: real"
  let ?s = "min (?b + 5 + of_int \<lfloor>r * 3\<rfloor>) (real (length v) - 1)"
  obtain buyBar where bb: "js_index v ?b = Some buyBar"
    using assms by (cases "js_index v ?b") (simp_all add: fallback_def Let_def)
  obtain sellBar where sb: "js_index v ?s = Some sellBar"
    using assms bb by (cases "js_index v ?s") (simp_all add: fallback_def Let_def)
  let ?tp = "100000 * position_size p / close buyBar"
  let ?reb = "rebuild v ?b ?s (close buyBar) (close sellBar) ?tp
                (js_for_from start (real (length v))) (100000, 0, [])"
  obtain c q where reb: "?reb = Inr (c, q, curve)"
    using assms bb sb by (cases ?reb) (auto simp: fallback_def Let_def)
  have ts: "ts = [\<lparr> trade_type = BUY, trade_date = the (date buyBar),
                   price = close buyBar, quantity = ?tp \<rparr>,
                 \<lparr> trade_type = SELL, trade_date = the (date sellBar),
                   price = close sellBar, quantity = ?tp \<rparr>]"
    using assms bb sb reb by (simp add: fallback_def Let_def)
  have len: "length curve = length (js_for_from start (real (length v)))"
    using rebuild_length [OF reb] by simp
  have flat: "curve = replicate (length curve) 100000" if "?b < start"
  proof -
    have "\<And>i. i \<in> set (js_for_from start (real (length v))) \<Longrightarrow> i \<noteq> ?b"
      using that js_for_from_ge by fastforce
    then have "curve = [] @ replicate (length (js_for_from start (real (length v)))) 100000"
      by (rule rebuild_untouched [OF reb])
    then show ?thesis using len by simp
  qed
  show ?thesis using ts len flat by simp
qed

lemma total_return_flat: "total_return (calculateMetrics (replicate m 100000) ts) = Fin 10"
  by (cases m)
     (simp_all add: calculateMetrics_def initial_capital_of_def final_capital_of_def js_sub_def
        js_fin_moderate Let_def)

lemma num_trades_pair:
  "map trade_type ts = [BUY, SELL] \<Longrightarrow> num_trades (calculateMetrics curve ts) = 1"
proof -
  assume "map trade_type ts = [BUY, SELL]"
  then obtain a b where "ts = [a, b]" "trade_type a = BUY" "trade_type b = SELL"
    by (auto simp: map_eq_Cons_conv)
  then show ?thesis by (simp add: calculateMetrics_def Let_def)
qed

text \<open>
  Runs that return through the fallback (the signal loop produced fewer than 2 trades)
  with the forced BUY index \<open>floor (0.25 * n)\<close>, \<open>n\<close> the number of valid bars, below the
  start index \<open>max ma_long 14\<close>: every entry of the rebuilt equity curve is the starting
  capital 100000, the curve is empty when the start index is at least \<open>n\<close>, \<open>total_return\<close>
  is exactly 10 (the actual return is 0) and \<open>num_trades\<close> is 1.
\<close>

theorem fallback_below_start_index:
  assumes run: "backtest_run s (Some md) r = Inr (curve, ts)"
    and fb: "length (trades (run_signals s (valid_bars md))) < 2"
    and below: "of_int \<lfloor>real (length (valid_bars md)) * 0.25\<rfloor> < max (ma_long (parameters s)) 14"
  shows "curve = replicate (length curve) 100000 \<and>
         (real (length (valid_bars md)) \<le> max (ma_long (parameters s)) 14 \<longrightarrow> curve = []) \<and>
         backtest s (Some md) r = Inr (calculateMetrics curve ts) \<and>
         total_return (calculateMetrics curve ts) = Fin 10 \<and>
         num_trades (calculateMetrics curve ts) = 1"
proof -
  let ?v = "valid_bars md"
  let ?start = "max (ma_long (parameters s)) 14"
  have fbk: "fallback (parameters s) ?v ?start r = Inr (curve, ts)"
    using run fb by (simp add: backtest_run_def Let_def split: if_splits)
  note f = fallback_Inr [OF fbk]
  have flat: "curve = replicate (length curve) 100000" using f below by blast
  have empty: "curve = []" if "real (length ?v) \<le> ?start"
    using f that by (simp add: js_for_from_Nil)
  have bt: "backtest s (Some md) r = Inr (calculateMetrics curve ts)"
    using run by (simp add: backtest_def)
  have tr: "total_return (calculateMetrics curve ts) = Fin 10"
    using flat total_return_flat [of "length curve" ts] by simp
  have nt: "num_trades (calculateMetrics curve ts) = 1"
    using f by (simp add: num_trades_pair)
  show ?thesis using flat empty bt tr nt by blast
qed

subsection \<open>The two documented errors, and no other error for a whole long period\<close>

lemma backtest_EmptyMarketData:
  "backtest s None r = Inl EmptyMarketData" "backtest s (Some []) r = Inl EmptyMarketData"
  by (simp_all add: backtest_def backtest_run_def)

lemma backtest_InsufficientData:
  assumes "md \<noteq> []" "real (length (valid_bars md)) < ma_long (parameters s)"
  shows "backtest s (Some md) r = Inl InsufficientData"
  using assms by (simp add: backtest_def backtest_run_def Let_def)

lemma backtest_whole_period_returns:
  assumes "ma_long (parameters s) = real k" "1 \<le> k" "k \<le> length (valid_bars md)" "0 \<le> r"
  shows "\<exists>m. backtest s (Some md) r = Inr m"
proof -
  have v: "1 \<le> length (valid_bars md)" using assms by simp
  then have md: "md \<noteq> []" by (auto simp: valid_bars_def)
  obtain res where "backtest_run s (Some md) r = Inr res"
    using backtest_run_returns [OF assms(1) md v assms(3) assms(4)] by blast
  then show ?thesis by (simp add: backtest_def)
qed

subsection \<open>Alternation of the trade log for a position size in \<open>(0, 1]\<close>\<close>

text \<open>
  Over exact reals a position bought with a positive position size is positive. In
  binary64 a product \<open>capital * position_size\<close> that underflows to 0 is the case of
  \<open>position_size = 0\<close> again; such sizes are outside the lemmas of this subsection.
\<close>

lemma valid_bars_props: "b \<in> set (valid_bars md) \<Longrightarrow> 0 < close b \<and> date b \<noteq> None"
  by (simp add: valid_bars_def)

lemma js_index_mem: "js_index xs i = Some x \<Longrightarrow> x \<in> set xs"
  by (auto simp: js_index_def split: if_splits)

lemma alternates_append:
  "alternates e (xs @ [t]) =
     (alternates e xs \<and>
      t = (if even (length xs) then e else (if e = BUY then SELL else BUY)))"
proof (induction xs arbitrary: e)
  case Nil
  show ?case by simp
next
  case (Cons x xs)
  show ?case by (cases e) (auto simp: Cons.IH)
qed

lemma buy_arith:
  assumes "0 < (c::real)" "0 < (ps::real)" "ps \<le> 1" "0 < (cl::real)"
  shows "0 < c * ps / cl" and "0 \<le> c - c * ps / cl * cl"
proof -
  show "0 < c * ps / cl" using assms by simp
  have "c * ps / cl * cl = c * ps" using assms by simp
  moreover have "c * ps \<le> c * 1" using assms by (intro mult_left_mono) simp_all
  ultimately show "0 \<le> c - c * ps / cl * cl" by simp
qed

lemma sell_arith:
  assumes "0 \<le> (c::real)" "0 < (q::real)" "0 < (cl::real)"
  shows "0 < c + q * cl"
proof -
  have "0 < q * cl" using assms by simp
  then show ?thesis using assms by linarith
qed

lemma signal_step_inv:
  assumes ps: "0 < position_size p" "position_size p \<le> 1"
    and pos: "\<And>b. b \<in> set d \<Longrightarrow> 0 < close b"
    and inv: "sim_inv st"
  shows "sim_inv (signal_step p d ms ml rsi i st)"
proof (cases "js_index d i")
  case None
  then show ?thesis using inv by (simp add: signal_step_def)
next
  case (Some bar)
  then have cl: "0 < close bar" using pos js_index_mem by fastforce
  show ?thesis
  proof (cases "position st = 0")
    case True
    then have c: "0 < capital st" and ev: "even (length (trades st))"
      and alt: "alternates BUY (map trade_type (trades st))"
      using inv by (auto simp: sim_inv_def)
    note b = buy_arith [OF c ps cl]
    show ?thesis
      using Some True c ev alt b
      by (simp add: signal_step_def Let_def sim_inv_def alternates_append split: option.splits)
  next
    case False
    then have q: "0 < position st" and c: "0 \<le> capital st" and od: "odd (length (trades st))"
      and alt: "alternates BUY (map trade_type (trades st))"
      using inv by (auto simp: sim_inv_def)
    note s = sell_arith [OF c q cl]
    show ?thesis
      using Some False q c od alt s
      by (simp add: signal_step_def Let_def sim_inv_def alternates_append split: option.splits)
  qed
qed

lemma fold_signal_step_inv:
  assumes ps: "0 < position_size p" "position_size p \<le> 1"
    and pos: "\<And>b. b \<in> set d \<Longrightarrow> 0 < close b"
  shows "sim_inv st \<Longrightarrow> sim_inv (fold (signal_step p d ms ml rsi) idxs st)"
proof (induction idxs arbitrary: st)
  case Nil
  then show ?case by simp
next
  case (Cons i idxs)
  have "sim_inv (signal_step p d ms ml rsi i st)"
    using ps pos Cons.prems by (rule signal_step_inv)
  then show ?case using Cons.IH by simp
qed

lemma run_signals_inv:
  assumes "0 < position_size (parameters s)" "position_size (parameters s) \<le> 1"
  shows "sim_inv (run_signals s (valid_bars md))"
proof -
  have init: "sim_inv \<lparr> capital = 100000, position = 0, trades = [], equity_curve = [100000],
         lastBuyIndex = - 1 \<rparr>"
    by (simp add: sim_inv_def)
  have pos: "\<And>b. b \<in> set (valid_bars md) \<Longrightarrow> 0 < close b"
    using valid_bars_props by blast
  show ?thesis
    unfolding run_signals_def Let_def signal_loop_def
    using assms pos init by (rule fold_signal_step_inv)
qed

lemma backtest_run_alternates:
  assumes ps: "0 < position_size (parameters s)" "position_size (parameters s) \<le> 1"
    and run: "backtest_run s (Some md) r = Inr (curve, ts)"
  shows "alternates BUY (map trade_type ts)"
proof (cases "length (trades (run_signals s (valid_bars md))) < 2")
  case True
  then have "fallback (parameters s) (valid_bars md) (max (ma_long (parameters s)) 14) r = Inr (curve, ts)"
    using run by (simp add: backtest_run_def Let_def split: if_splits)
  then have "map trade_type ts = [BUY, SELL]" using fallback_Inr by blast
  then show ?thesis by simp
next
  case False
  then have "ts = trades (run_signals s (valid_bars md))"
    using run by (simp add: backtest_run_def Let_def split: if_splits)
  then show ?thesis using run_signals_inv [OF ps] by (simp add: sim_inv_def)
qed

lemma count_pairs_mono: "fst acc \<le> fst (count_pairs ts acc)"
proof (induction ts acc rule: count_pairs.induct)
  case (1 current nxt rest acc)
  then show ?case by (auto split: if_splits intro: le_trans)
qed simp_all

lemma alternates_two_completed:
  assumes "alternates BUY (map trade_type ts)" "2 \<le> length ts"
  shows "1 \<le> num_trades (calculateMetrics curve ts)"
proof -
  obtain a b rest where ts: "ts = a # b # rest"
    using assms(2) by (cases ts; cases "tl ts") auto
  then have "trade_type a = BUY" "trade_type b = SELL" using assms(1) by auto
  then have "count_pairs ts (0, 0) = count_pairs (b # rest) (Suc 0, if price a < price b then Suc 0 else 0)"
    using ts by simp
  then have "1 \<le> fst (count_pairs ts (0, 0))"
    using count_pairs_mono [of "(Suc 0, if price a < price b then Suc 0 else 0)" "b # rest"] by simp
  then show ?thesis by (simp add: calculateMetrics_def Let_def)
qed

lemma backtest_whole_period_completes_a_trade:
  assumes k: "ma_long (parameters s) = real k" "1 \<le> k"
    and enough: "k \<le> length (valid_bars md)"
    and ps: "0 < position_size (parameters s)" "position_size (parameters s) \<le> 1"
    and r: "0 \<le> r"
  shows "\<exists>m. backtest s (Some md) r = Inr m \<and> 1 \<le> num_trades m"
proof -
  have v: "1 \<le> length (valid_bars md)" using k(2) enough by simp
  then have md: "md \<noteq> []" by (auto simp: valid_bars_def)
  obtain res where "backtest_run s (Some md) r = Inr res"
    using backtest_run_returns [OF k(1) md v enough r] by blast
  then obtain curve ts where run: "backtest_run s (Some md) r = Inr (curve, ts)"
    by (cases res) simp
  have alt: "alternates BUY (map trade_type ts)"
    using ps run by (rule backtest_run_alternates)
  have two: "2 \<le> length ts"
  proof (cases "length (trades (run_signals s (valid_bars md))) < 2")
    case True
    then have "fallback (parameters s) (valid_bars md) (max (ma_long (parameters s)) 14) r = Inr (curve, ts)"
      using run by (simp add: backtest_run_def Let_def split: if_splits)
    then have "length (map trade_type ts) = 2" using fallback_Inr by fastforce
    then show ?thesis by simp
  next
    case False
    then have "ts = trades (run_signals s (valid_bars md))"
      using run by (simp add: backtest_run_def Let_def split: if_splits)
    then show ?thesis using False by simp
  qed
  have "backtest s (Some md) r = Inr (calculateMetrics curve ts)"
    using run by (simp add: backtest_def)
  then show ?thesis using alternates_two_completed [OF alt two] by blast
qed

subsection \<open>The equity curve of the signal path\<close>

lemma signal_step_curve:
  "equity_curve (signal_step p d ms ml rsi i st) \<noteq> [] \<and>
   hd (equity_curve (signal_step p d ms ml rsi i st)) = hd (equity_curve st) \<and>
   length (equity_curve (signal_step p d ms ml rsi i st)) =
     length (equity_curve st) + (if round_skipped d ms ml i then 0 else 1)"
  if "equity_curve st \<noteq> []"
  using that
  by (auto simp: signal_step_def round_skipped_def Let_def split: option.splits)

lemma fold_signal_step_curve:
  "equity_curve st \<noteq> [] \<Longrightarrow>
   equity_curve (fold (signal_step p d ms ml rsi) idxs st) \<noteq> [] \<and>
   hd (equity_curve (fold (signal_step p d ms ml rsi) idxs st)) = hd (equity_curve st) \<and>
   length (equity_curve (fold (signal_step p d ms ml rsi) idxs st)) =
     length (equity_curve st) + length (filter (\<lambda>i. \<not> round_skipped d ms ml i) idxs)"
proof (induction idxs arbitrary: st)
  case Nil
  then show ?case by simp
next
  case (Cons i idxs)
  note step = signal_step_curve [OF Cons.prems, of p d ms ml rsi i]
  from step have ne: "equity_curve (signal_step p d ms ml rsi i st) \<noteq> []" by blast
  show ?case
    using Cons.IH [OF ne] step by simp
qed

lemma signal_path_curve:
  assumes run: "backtest_run s (Some md) r = Inr (curve, ts)"
    and sig: "2 \<le> length (trades (run_signals s (valid_bars md)))"
  shows "curve \<noteq> [] \<and> hd curve = 100000 \<and>
         length curve =
           1 + length (filter
                 (\<lambda>i. \<not> round_skipped (valid_bars md)
                          (calculateMA (valid_bars md) (ma_short (parameters s)))
                          (calculateMA (valid_bars md) (ma_long (parameters s))) i)
                 (js_for_from (max (ma_long (parameters s)) 14) (real (length (valid_bars md)))))"
proof -
  have c: "curve = equity_curve (run_signals s (valid_bars md))"
    using run sig by (simp add: backtest_run_def Let_def split: if_splits)
  show ?thesis
    unfolding c run_signals_def Let_def signal_loop_def
    using fold_signal_step_curve
      [of "\<lparr> capital = 100000, position = 0, trades = [], equity_curve = [100000],
             lastBuyIndex = - 1 \<rparr>"]
    by simp
qed

subsection \<open>Runs on the example series\<close>

lemmas eval_defs = backtest_run_def run_signals_def signal_loop_def signal_step_def fallback_def
  rebuild_step_def valid_bars_def adjust_rsi_def calculateMA_def ma_at_def ma_window_step_def
  calculateRSI_def rsi_at_def js_for_def js_for_from_def js_index_def mk_bars_def mk_bar_def
  mk_strategy_def Let_def upt_rec

lemma run_flat:
  "backtest_run (mk_strategy 5 5 30 0.15) (Some bars_flat) 0 =
     Inr ([100000, 100000],
          [\<lparr>trade_type = BUY, trade_date = 345600000, price = 100, quantity = 150\<rparr>,
           \<lparr>trade_type = SELL, trade_date = 777600000, price = 100, quantity = 150\<rparr>])"
  by (simp add: eval_defs bars_flat_def)

lemma signals_flat: "trades (run_signals (mk_strategy 5 5 30 0.15) (valid_bars bars_flat)) = []"
  by (simp add: eval_defs bars_flat_def)

lemma signals_short: "trades (run_signals (mk_strategy 5 5 30 0.15) (valid_bars bars_short)) = []"
  by (simp add: eval_defs bars_short_def)

lemma rounds_flat:
  "js_for_from (max (ma_long (parameters (mk_strategy 5 5 30 0.15))) 14)
     (real (length (valid_bars bars_flat))) = [14, 15]"
  by (simp add: eval_defs bars_flat_def)

lemma run_short_0:
  "backtest_run (mk_strategy 5 5 30 0.15) (Some bars_short) 0 =
     Inr ([],
          [\<lparr>trade_type = BUY, trade_date = 259200000, price = 110, quantity = 15000 / 110\<rparr>,
           \<lparr>trade_type = SELL, trade_date = 691200000, price = 105, quantity = 15000 / 110\<rparr>])"
  by (simp add: eval_defs bars_short_def)

lemma run_short_half:
  "backtest_run (mk_strategy 5 5 30 0.15) (Some bars_short) (1 / 2) =
     Inr ([],
          [\<lparr>trade_type = BUY, trade_date = 259200000, price = 110, quantity = 15000 / 110\<rparr>,
           \<lparr>trade_type = SELL, trade_date = 777600000, price = 120, quantity = 15000 / 110\<rparr>])"
  by (simp add: eval_defs bars_short_def)

lemma run_dip:
  "backtest_run (mk_strategy 1 2 30 0) (Some bars_dip) r =
     Inr ([100000, 100000, 100000],
          [\<lparr>trade_type = BUY, trade_date = 1209600000, price = 51, quantity = 0\<rparr>,
           \<lparr>trade_type = BUY, trade_date = 1296000000, price = 52, quantity = 0\<rparr>])"
  by (simp add: eval_defs bars_dip_def)

lemma signals_round_trip:
  "map trade_type (trades (run_signals (mk_strategy 1 2 30 0.5) (valid_bars bars_round_trip))) = [BUY, SELL]"
  by (simp add: eval_defs bars_round_trip_def)

lemma variant_example_ma_long: "ma_long (parameters variant_example) = 366 / 10"
  by (simp add: variant_example_def generateVariants_def make_variant_def mk_strategy_def Let_def upt_rec)

lemma run_variant:
  "backtest_run variant_example (Some (mk_bars (replicate 40 100))) r = Inl TypeError"
proof (rule backtest_run_fractional_ma_long)
  show "ma_long (parameters variant_example) \<noteq> of_int \<lfloor>ma_long (parameters variant_example)\<rfloor>"
    by (simp add: variant_example_ma_long)
  show "14 < ma_long (parameters variant_example)"
    by (simp add: variant_example_ma_long)
  have "valid_bars (mk_bars (replicate 40 100)) = mk_bars (replicate 40 100)"
    by (rule valid_bars_mk_bars) simp
  then show "ma_long (parameters variant_example) \<le> real (length (valid_bars (mk_bars (replicate 40 100))))"
    by (simp add: variant_example_ma_long length_mk_bars)
qed

lemma signals_variant:
  "trades (run_signals variant_example (valid_bars (mk_bars (replicate 40 100)))) = []"
  by (rule run_signals_fractional) (simp_all add: variant_example_ma_long)

lemma run_no_valid_bars:
  "backtest_run (mk_strategy 1 0 30 0.15) (Some (mk_bars [0])) r = Inl TypeError"
  by (simp add: eval_defs)

lemma fallback_draw:
  "\<lfloor>r1 * 3\<rfloor> = \<lfloor>r2 * 3\<rfloor> \<Longrightarrow> fallback p v start r1 = fallback p v start r2"
  by (simp add: fallback_def)

lemma backtest_run_signal_path:
  "2 \<le> length (trades (run_signals s (valid_bars md))) \<Longrightarrow>
   backtest_run s (Some md) r1 = backtest_run s (Some md) r2"
  by (simp add: backtest_run_def Let_def)

text \<open>
  C2 (as amended). \<open>backtest\<close> is a function of the strategy, the bars and the value \<open>r\<close>
  of the one \<^verbatim>\<open>Math.random()\<close> call of its fallback. When the signal loop produces at least
  two trades the result does not depend on \<open>r\<close>; on the fallback path it depends on \<open>r\<close> only
  through \<open>floor (3 * r)\<close>, the extra hold of 0, 1 or 2 bars.
\<close>

theorem backtest_deterministic_given_draw:
  assumes "2 \<le> length (trades (run_signals s (valid_bars md))) \<or> \<lfloor>r1 * 3\<rfloor> = \<lfloor>r2 * 3\<rfloor>"
  shows "backtest s (Some md) r1 = backtest s (Some md) r2"
proof -
  have "backtest_run s (Some md) r1 = backtest_run s (Some md) r2"
    using assms
  proof
    assume "2 \<le> length (trades (run_signals s (valid_bars md)))"
    then show ?thesis by (rule backtest_run_signal_path)
  next
    assume "\<lfloor>r1 * 3\<rfloor> = \<lfloor>r2 * 3\<rfloor>"
    then have "fallback p v start r1 = fallback p v start r2" for p v start
      by (rule fallback_draw)
    then show ?thesis by (simp add: backtest_run_def Let_def)
  qed
  then show ?thesis by (simp add: backtest_def)
qed

theorem backtest_deterministic_given_draw_witness:
  "2 \<le> length (trades (run_signals (mk_strategy 1 2 30 0.5) (valid_bars bars_round_trip))) \<and>
   \<lfloor>(0::real) * 3\<rfloor> \<noteq> \<lfloor>(9 / 10 :: real) * 3\<rfloor> \<and>
   backtest (mk_strategy 1 2 30 0.5) (Some bars_round_trip) 0 =
     backtest (mk_strategy 1 2 30 0.5) (Some bars_round_trip) (9 / 10)"
proof -
  have "length (map trade_type (trades (run_signals (mk_strategy 1 2 30 0.5) (valid_bars bars_round_trip)))) = 2"
    by (simp only: signals_round_trip) simp
  then have two: "2 \<le> length (trades (run_signals (mk_strategy 1 2 30 0.5) (valid_bars bars_round_trip)))"
    by simp
  have "\<lfloor>(0::real) * 3\<rfloor> \<noteq> \<lfloor>(9 / 10 :: real) * 3\<rfloor>" by simp
  then show ?thesis
    using two backtest_deterministic_given_draw [OF disjI1 [OF two], of 0 "9 / 10"] by blast
qed

text \<open>
  C2 as the specification states it fails: \<open>backtest\<close> draws a random number on the
  fallback path. On twelve valid bars the forced SELL is at bar 8 for the draw 0 and at
  bar 9 for the draw 0.5, and the reported \<open>win_rate\<close> is 60 and 75.
\<close>

theorem backtest_random_fallback_counterexample:
  "backtest (mk_strategy 5 5 30 0.15) (Some bars_short) 0 =
     Inr (calculateMetrics []
       [\<lparr>trade_type = BUY, trade_date = 259200000, price = 110, quantity = 15000 / 110\<rparr>,
        \<lparr>trade_type = SELL, trade_date = 691200000, price = 105, quantity = 15000 / 110\<rparr>]) \<and>
   backtest (mk_strategy 5 5 30 0.15) (Some bars_short) (1 / 2) =
     Inr (calculateMetrics []
       [\<lparr>trade_type = BUY, trade_date = 259200000, price = 110, quantity = 15000 / 110\<rparr>,
        \<lparr>trade_type = SELL, trade_date = 777600000, price = 120, quantity = 15000 / 110\<rparr>]) \<and>
   win_rate (calculateMetrics []
       [\<lparr>trade_type = BUY, trade_date = 259200000, price = 110, quantity = 15000 / 110\<rparr>,
        \<lparr>trade_type = SELL, trade_date = 691200000, price = 105, quantity = 15000 / 110\<rparr>]) = 60 \<and>
   win_rate (calculateMetrics []
       [\<lparr>trade_type = BUY, trade_date = 259200000, price = 110, quantity = 15000 / 110\<rparr>,
        \<lparr>trade_type = SELL, trade_date = 777600000, price = 120, quantity = 15000 / 110\<rparr>]) = 75 \<and>
   backtest (mk_strategy 5 5 30 0.15) (Some bars_short) 0 \<noteq>
     backtest (mk_strategy 5 5 30 0.15) (Some bars_short) (1 / 2)"
proof -
  let ?T0 = "[\<lparr>trade_type = BUY, trade_date = 259200000, price = 110, quantity = 15000 / 110\<rparr>,
        \<lparr>trade_type = SELL, trade_date = 691200000, price = 105, quantity = 15000 / 110\<rparr>]"
  let ?T1 = "[\<lparr>trade_type = BUY, trade_date = 259200000, price = 110, quantity = 15000 / 110\<rparr>,
        \<lparr>trade_type = SELL, trade_date = 777600000, price = 120, quantity = 15000 / 110\<rparr>]"
  have b0: "backtest (mk_strategy 5 5 30 0.15) (Some bars_short) 0 = Inr (calculateMetrics [] ?T0)"
    by (simp only: backtest_def run_short_0) simp
  have b1: "backtest (mk_strategy 5 5 30 0.15) (Some bars_short) (1 / 2) = Inr (calculateMetrics [] ?T1)"
    by (simp only: backtest_def run_short_half) simp
  have w0: "win_rate (calculateMetrics [] ?T0) = 60"
    by (simp add: calculateMetrics_def Let_def)
  have w1: "win_rate (calculateMetrics [] ?T1) = 75"
    by (simp add: calculateMetrics_def Let_def)
  have "calculateMetrics [] ?T0 \<noteq> calculateMetrics [] ?T1"
    using w0 w1 by auto
  then show ?thesis using b0 b1 w0 w1 by simp
qed

text \<open>
  Sixteen flat bars: the forced BUY is at bar 4, the curve starts at bar 14. Twelve bars:
  the forced BUY is at bar 3, the start index 14 is past the end and the curve is empty.
\<close>

theorem fallback_below_start_index_witness:
  "backtest_run (mk_strategy 5 5 30 0.15) (Some bars_flat) 0 =
     Inr ([100000, 100000],
          [\<lparr>trade_type = BUY, trade_date = 345600000, price = 100, quantity = 150\<rparr>,
           \<lparr>trade_type = SELL, trade_date = 777600000, price = 100, quantity = 150\<rparr>]) \<and>
   length (trades (run_signals (mk_strategy 5 5 30 0.15) (valid_bars bars_flat))) < 2 \<and>
   of_int \<lfloor>real (length (valid_bars bars_flat)) * 0.25\<rfloor>
     < max (ma_long (parameters (mk_strategy 5 5 30 0.15))) 14 \<and>
   backtest (mk_strategy 5 5 30 0.15) (Some bars_flat) 0 =
     Inr (calculateMetrics [100000, 100000]
          [\<lparr>trade_type = BUY, trade_date = 345600000, price = 100, quantity = 150\<rparr>,
           \<lparr>trade_type = SELL, trade_date = 777600000, price = 100, quantity = 150\<rparr>]) \<and>
   total_return (calculateMetrics [100000, 100000]
          [\<lparr>trade_type = BUY, trade_date = 345600000, price = 100, quantity = 150\<rparr>,
           \<lparr>trade_type = SELL, trade_date = 777600000, price = 100, quantity = 150\<rparr>]) = Fin 10 \<and>
   num_trades (calculateMetrics [100000, 100000]
          [\<lparr>trade_type = BUY, trade_date = 345600000, price = 100, quantity = 150\<rparr>,
           \<lparr>trade_type = SELL, trade_date = 777600000, price = 100, quantity = 150\<rparr>]) = 1 \<and>
   length (trades (run_signals (mk_strategy 5 5 30 0.15) (valid_bars bars_short))) < 2 \<and>
   of_int \<lfloor>real (length (valid_bars bars_short)) * 0.25\<rfloor>
     < max (ma_long (parameters (mk_strategy 5 5 30 0.15))) 14 \<and>
   real (length (valid_bars bars_short)) \<le> max (ma_long (parameters (mk_strategy 5 5 30 0.15))) 14 \<and>
   backtest (mk_strategy 5 5 30 0.15) (Some bars_short) 0 =
     Inr (calculateMetrics []
          [\<lparr>trade_type = BUY, trade_date = 259200000, price = 110, quantity = 15000 / 110\<rparr>,
           \<lparr>trade_type = SELL, trade_date = 691200000, price = 105, quantity = 15000 / 110\<rparr>]) \<and>
   total_return (calculateMetrics []
          [\<lparr>trade_type = BUY, trade_date = 259200000, price = 110, quantity = 15000 / 110\<rparr>,
           \<lparr>trade_type = SELL, trade_date = 691200000, price = 105, quantity = 15000 / 110\<rparr>]) = Fin 10 \<and>
   num_trades (calculateMetrics []
          [\<lparr>trade_type = BUY, trade_date = 259200000, price = 110, quantity = 15000 / 110\<rparr>,
           \<lparr>trade_type = SELL, trade_date = 691200000, price = 105, quantity = 15000 / 110\<rparr>]) = 1"
proof -
  have fb: "length (trades (run_signals (mk_strategy 5 5 30 0.15) (valid_bars bars_flat))) < 2"
    unfolding signals_flat by simp
  have below: "of_int \<lfloor>real (length (valid_bars bars_flat)) * 0.25\<rfloor>
     < max (ma_long (parameters (mk_strategy 5 5 30 0.15))) 14"
    by (simp add: valid_bars_def bars_flat_def mk_bars_def mk_bar_def mk_strategy_def)
  have fb': "length (trades (run_signals (mk_strategy 5 5 30 0.15) (valid_bars bars_short))) < 2"
    unfolding signals_short by simp
  have below': "of_int \<lfloor>real (length (valid_bars bars_short)) * 0.25\<rfloor>
     < max (ma_long (parameters (mk_strategy 5 5 30 0.15))) 14"
    by (simp add: valid_bars_def bars_short_def mk_bars_def mk_bar_def mk_strategy_def)
  have short: "real (length (valid_bars bars_short))
     \<le> max (ma_long (parameters (mk_strategy 5 5 30 0.15))) 14"
    by (simp add: valid_bars_def bars_short_def mk_bars_def mk_bar_def mk_strategy_def)
  show ?thesis
    using fallback_below_start_index [OF run_flat fb below]
      fallback_below_start_index [OF run_short_0 fb' below']
      run_flat fb below fb' below' short
    by simp
qed

lemma fallback_curve_length:
  assumes run: "backtest_run s (Some md) r = Inr (curve, ts)"
    and fb: "length (trades (run_signals s (valid_bars md))) < 2"
  shows "length curve =
           length (js_for_from (max (ma_long (parameters s)) 14) (real (length (valid_bars md))))"
proof -
  have "fallback (parameters s) (valid_bars md) (max (ma_long (parameters s)) 14) r = Inr (curve, ts)"
    using run fb by (simp add: backtest_run_def Let_def split: if_splits)
  then show ?thesis using fallback_Inr by blast
qed

text \<open>
  C3 fails on the fallback path. The signal loop starts its curve with the starting
  capital, the rebuild of the fallback starts from the empty curve: on sixteen flat bars
  the loop runs for the bars 14 and 15 and the curve handed to \<open>calculateMetrics\<close> has two
  entries, not three. By \<open>fallback_curve_length\<close> this is so on every run through the
  fallback; by \<open>signal_path_curve\<close> the curve of the signal path does start with the
  starting capital and has one more entry for each round that reached the equity update.
\<close>

theorem fallback_curve_without_initial_entry:
  "backtest_run (mk_strategy 5 5 30 0.15) (Some bars_flat) 0 =
     Inr ([100000, 100000],
          [\<lparr>trade_type = BUY, trade_date = 345600000, price = 100, quantity = 150\<rparr>,
           \<lparr>trade_type = SELL, trade_date = 777600000, price = 100, quantity = 150\<rparr>]) \<and>
   js_for_from (max (ma_long (parameters (mk_strategy 5 5 30 0.15))) 14)
     (real (length (valid_bars bars_flat))) = [14, 15] \<and>
   length [100000, 100000 :: real] \<noteq> length [14, 15 :: real] + 1"
  using run_flat rounds_flat by simp

text \<open>
  C4 fails for a long period that is not whole, which is what \<open>generateVariants\<close> returns:
  the variant with \<open>ma_long = 36.6\<close> on 40 valid bars passes both checks and then throws a
  \<^verbatim>\<open>TypeError\<close>, because the loops count \<open>36.6, 37.6, \<dots>\<close> and no bar has such an index.
  By \<open>backtest_run_fractional_ma_long\<close> this is so for every long period above 14 that is
  not whole. For a whole long period of at least 1 the claim holds: \<open>backtest_EmptyMarketData\<close>,
  \<open>backtest_InsufficientData\<close> and \<open>backtest_whole_period_returns\<close>.
\<close>

theorem backtest_variant_TypeError:
  "ma_long (parameters variant_example) = 366 / 10 \<and>
   length (valid_bars (mk_bars (replicate 40 100))) = 40 \<and>
   backtest variant_example (Some (mk_bars (replicate 40 100))) r = Inl TypeError"
proof -
  have "valid_bars (mk_bars (replicate 40 100)) = mk_bars (replicate 40 100)"
    by (rule valid_bars_mk_bars) simp
  then have "length (valid_bars (mk_bars (replicate 40 100))) = 40"
    by (simp add: length_mk_bars)
  moreover have "backtest variant_example (Some (mk_bars (replicate 40 100))) r = Inl TypeError"
    by (simp only: backtest_def run_variant) simp
  ultimately show ?thesis using variant_example_ma_long by simp
qed

text \<open>
  C5 fails for \<open>position_size = 0\<close>: each BUY leaves the position at 0, the next bullish
  bar buys again, the log of two BUYs is kept (it has 2 entries) and holds no completed
  BUY-SELL pair, so \<open>num_trades\<close> is 0. It also fails where \<open>backtest\<close> throws, see
  \<open>run_variant\<close>. For a whole long period of at least 1 and a position size in \<open>(0, 1]\<close> the
  claim holds over exact reals: \<open>backtest_whole_period_completes_a_trade\<close>.
\<close>

theorem backtest_zero_position_size_no_completed_trade:
  "ma_long (parameters (mk_strategy 1 2 30 0)) \<le> real (length (valid_bars bars_dip)) \<and>
   backtest (mk_strategy 1 2 30 0) (Some bars_dip) r =
     Inr (calculateMetrics [100000, 100000, 100000]
          [\<lparr>trade_type = BUY, trade_date = 1209600000, price = 51, quantity = 0\<rparr>,
           \<lparr>trade_type = BUY, trade_date = 1296000000, price = 52, quantity = 0\<rparr>]) \<and>
   num_trades (calculateMetrics [100000, 100000, 100000]
          [\<lparr>trade_type = BUY, trade_date = 1209600000, price = 51, quantity = 0\<rparr>,
           \<lparr>trade_type = BUY, trade_date = 1296000000, price = 52, quantity = 0\<rparr>]) = 0"
proof -
  have "ma_long (parameters (mk_strategy 1 2 30 0)) \<le> real (length (valid_bars bars_dip))"
    by (simp add: valid_bars_def bars_dip_def mk_bars_def mk_bar_def mk_strategy_def)
  moreover have "backtest (mk_strategy 1 2 30 0) (Some bars_dip) r =
     Inr (calculateMetrics [100000, 100000, 100000]
          [\<lparr>trade_type = BUY, trade_date = 1209600000, price = 51, quantity = 0\<rparr>,
           \<lparr>trade_type = BUY, trade_date = 1296000000, price = 52, quantity = 0\<rparr>])"
    by (simp only: backtest_def run_dip) simp
  moreover have "num_trades (calculateMetrics [100000, 100000, 100000]
          [\<lparr>trade_type = BUY, trade_date = 1209600000, price = 51, quantity = 0\<rparr>,
           \<lparr>trade_type = BUY, trade_date = 1296000000, price = 52, quantity = 0\<rparr>]) = 0"
    by (simp add: calculateMetrics_def Let_def)
  ultimately show ?thesis by blast
qed

text \<open>
  C8 fails for \<open>position_size = 0\<close>: the trade log of a run that returns holds two
  consecutive BUYs. For a position size in \<open>(0, 1]\<close> the claim holds over exact reals:
  \<open>backtest_run_alternates\<close>.
\<close>

theorem backtest_zero_position_size_repeats_BUY:
  "backtest_run (mk_strategy 1 2 30 0) (Some bars_dip) r =
     Inr ([100000, 100000, 100000],
          [\<lparr>trade_type = BUY, trade_date = 1209600000, price = 51, quantity = 0\<rparr>,
           \<lparr>trade_type = BUY, trade_date = 1296000000, price = 52, quantity = 0\<rparr>]) \<and>
   map trade_type
     [\<lparr>trade_type = BUY, trade_date = 1209600000, price = 51, quantity = 0\<rparr>,
      \<lparr>trade_type = BUY, trade_date = 1296000000, price = 52, quantity = (0::real)\<rparr>] = [BUY, BUY]"
  by (simp only: run_dip) simp

text \<open>
  C10 fails where \<open>backtest\<close> throws. For the variant with \<open>ma_long = 36.6\<close> on 40 valid bars
  the signal loop makes no trade, so the fallback triggers, and the forced BUY index
  \<open>floor (0.25 * 40) = 10\<close> is below the start index 36.6; the rebuild loop then reads
  \<^verbatim>\<open>.close\<close> of a missing bar and the call ends in a \<^verbatim>\<open>TypeError\<close>: no curve is rebuilt
  and no metrics are reported. By \<open>fallback_below_start_index\<close> the claim holds on every run
  that returns, and by \<open>backtest_run_returns\<close> a run returns whenever the long period is
  whole and at least 1.
\<close>

theorem fallback_below_start_index_throws:
  "length (trades (run_signals variant_example (valid_bars (mk_bars (replicate 40 100))))) < 2 \<and>
   of_int \<lfloor>real (length (valid_bars (mk_bars (replicate 40 100)))) * 0.25\<rfloor>
     < max (ma_long (parameters variant_example)) 14 \<and>
   backtest variant_example (Some (mk_bars (replicate 40 100))) r = Inl TypeError"
proof -
  have "valid_bars (mk_bars (replicate 40 100)) = mk_bars (replicate 40 100)"
    by (rule valid_bars_mk_bars) simp
  then have len: "length (valid_bars (mk_bars (replicate 40 100))) = 40"
    by (simp add: length_mk_bars)
  have fb: "length (trades (run_signals variant_example (valid_bars (mk_bars (replicate 40 100))))) < 2"
    unfolding signals_variant by simp
  have below: "of_int \<lfloor>real (length (valid_bars (mk_bars (replicate 40 100)))) * 0.25\<rfloor>
     < max (ma_long (parameters variant_example)) 14"
    unfolding len variant_example_ma_long by simp
  have "backtest variant_example (Some (mk_bars (replicate 40 100))) r = Inl TypeError"
    by (simp only: backtest_def run_variant) simp
  then show ?thesis using fb below by blast
qed

end
